theory Spec2Isabelle
  imports Complex_Main
begin

section \<open>Numbers, defaults and limits\<close>

text \<open>
  The speed-test server measures latency and throughput over four transport bindings:
  the Express route \<^verbatim>\<open>GET /api/download\<close> and the \<^verbatim>\<open>ws\<close> socket server of the Node
  backend, and the Durable Object class \<^verbatim>\<open>WebSocketState\<close> and the upgrade endpoint
  \<^verbatim>\<open>onRequestGET\<close> of \<^verbatim>\<open>functions/websocket.ts\<close>.

  The route reads its sizes with \<^verbatim>\<open>parseInt\<close>, so they are integers (\<^typ>\<open>int\<close>; \<open>None\<close>
  stands for NaN). The sockets read theirs from parsed JSON, where any number may stand,
  fractions included: there a number is a \<^typ>\<open>real\<close>, and \<open>None\<close> stands for an absent
  field. Arithmetic on them is exact in the model; the rounding of values beyond the
  53 bits of a double is not modelled. Divisions that can meet a zero divisor are kept
  apart in the type \<open>jsnum\<close> below, so that a division by zero is a value of the model
  as it is one of the program. The constants and the two defaulting expressions are the
  same text in every binding and are defined once, for both number types.
\<close>

definition MiB :: "'a::linordered_idom" where
  "MiB = 1024 * 1024"

definition maxSize :: "'a::linordered_idom" where
  "maxSize = 100 * 1024 * 1024"

definition defaultSize :: "'a::linordered_idom" where
  "defaultSize = 1024 * 1024"

definition defaultChunk :: "'a::linordered_idom" where
  "defaultChunk = 64 * 1024"

text \<open>
  \<^verbatim>\<open>v || d\<close>: the left operand unless it is falsy. An absent field, NaN and the number
  \<open>0\<close> are falsy.
\<close>

definition or_default :: "'a::linordered_idom option \<Rightarrow> 'a \<Rightarrow> 'a" where
  "or_default v d = (case v of None \<Rightarrow> d | Some n \<Rightarrow> if n = 0 then d else n)"

text \<open>\<^verbatim>\<open>const safeSize = Math.min(size, 100 * 1024 * 1024)\<close>, after the default.\<close>

definition safeSizeOf :: "'a::linordered_idom option \<Rightarrow> 'a" where
  "safeSizeOf requested = min (or_default requested defaultSize) maxSize"

definition chunkSizeOf :: "'a::linordered_idom option \<Rightarrow> 'a" where
  "chunkSizeOf chunkSize = or_default chunkSize defaultChunk"

text \<open>
  The result of a floating-point division: a finite quotient (rounding is not modelled),
  or one of the special values that IEEE division by zero produces. The divisors of the
  program are differences of clock readings and sizes that are not \<open>-0\<close>, so a zero
  divisor is \<open>+0\<close>.
\<close>

datatype jsnum = Finite real | PosInfinity | NegInfinity | NaN

definition js_div :: "real \<Rightarrow> real \<Rightarrow> jsnum" where
  "js_div x y =
     (if y = 0 then (if x = 0 then NaN else if 0 < x then PosInfinity else NegInfinity)
      else Finite (x / y))"

text \<open>
  \<^verbatim>\<open>const duration = (endTime - testStartTime) / 1000\<close> and
  \<^verbatim>\<open>const throughputMBps = (safeSize / (1024 * 1024)) / duration\<close>.
\<close>

definition durationSeconds :: "int \<Rightarrow> int \<Rightarrow> real" where
  "durationSeconds startTs endTs = real_of_int (endTs - startTs) / 1000"

definition throughputMBps :: "real \<Rightarrow> int \<Rightarrow> int \<Rightarrow> jsnum" where
  "throughputMBps totalBytes startTs endTs =
     js_div (totalBytes / (1024 * 1024)) (durationSeconds startTs endTs)"

text \<open>\<^verbatim>\<open>bytesSent / safeSize * 100\<close>, the progress figure before its formatting.\<close>

definition percentOf :: "real \<Rightarrow> real \<Rightarrow> jsnum" where
  "percentOf bytesSent totalBytes =
     (case js_div bytesSent totalBytes of
        Finite q \<Rightarrow> Finite (q * 100)
      | PosInfinity \<Rightarrow> PosInfinity
      | NegInfinity \<Rightarrow> NegInfinity
      | NaN \<Rightarrow> NaN)"

text \<open>
  \<^verbatim>\<open>x.toFixed(1)\<close>. The decimal digits of a natural number come first. For a finite
  \<open>x\<close> below \<open>10^21\<close> in magnitude, the text is that of the integer \<open>n\<close> for which
  \<open>n / 10\<close> is nearest to the magnitude of \<open>x\<close> (the larger one of two), with one digit
  after the point and the sign of \<open>x\<close> in front. From \<open>10^21\<close> on the language switches
  to its exponent notation, which is not spelled out here. The digits are those of the
  exact value; where the double nearest to it lies on the other side of a tie, the last
  digit of the program's text can differ by one.
\<close>

definition digitChar :: "nat \<Rightarrow> char" where
  "digitChar d = ''0123456789'' ! d"

function natText :: "nat \<Rightarrow> string" where
  "natText n = (if n < 10 then [digitChar n] else natText (n div 10) @ [digitChar (n mod 10)])"
  by pat_completeness auto
termination
  by (relation "measure (\<lambda>n. n)") auto

declare natText.simps [simp del]

datatype rendering = Decimal string | ExponentForm

definition toFixed1 :: "jsnum \<Rightarrow> rendering" where
  "toFixed1 x =
     (case x of
        NaN \<Rightarrow> Decimal ''NaN''
      | PosInfinity \<Rightarrow> Decimal ''Infinity''
      | NegInfinity \<Rightarrow> Decimal ''-Infinity''
      | Finite r \<Rightarrow>
          if 10 ^ 21 \<le> \<bar>r\<bar> then ExponentForm
          else
            let n = nat \<lfloor>\<bar>r\<bar> * 10 + 1 / 2\<rfloor>
            in Decimal ((if r < 0 then ''-'' else '''') @
                 natText (n div 10) @ ''.'' @ [digitChar (n mod 10)]))"

text \<open>
  The integer that a typed array takes for a length or an index (the language's
  \<^verbatim>\<open>ToIntegerOrInfinity\<close> on a finite number): the fraction is cut off.
\<close>

definition toInteger :: "real \<Rightarrow> int" where
  "toInteger x = (if 0 \<le> x then \<lfloor>x\<rfloor> else \<lceil>x\<rceil>)"

text \<open>
  Allocation. \<^verbatim>\<open>new Uint8Array(n)\<close> raises a RangeError unless the integer of \<open>n\<close> lies
  between \<open>0\<close> and \<open>2^53 - 1\<close>; the array then has that many bytes.
  \<^verbatim>\<open>crypto.randomBytes(n)\<close> raises for a negative size and for one above \<open>2^31 - 1\<close>,
  and returns a buffer of the integer of \<open>n\<close> bytes. A runtime that runs out of memory
  below these bounds is outside the model.
\<close>

definition uint8ArrayOk :: "real \<Rightarrow> bool" where
  "uint8ArrayOk n = (0 \<le> toInteger n \<and> toInteger n \<le> 2 ^ 53 - 1)"

definition randomBytesOk :: "'a::linordered_idom \<Rightarrow> bool" where
  "randomBytesOk n = (0 \<le> n \<and> n \<le> 2 ^ 31 - 1)"

text \<open>
  \<^verbatim>\<open>buf.subarray(0, e)\<close> on a buffer of \<open>len\<close> bytes: the end is made an integer, a
  negative end counts from the end of the buffer, and the end is clamped to the buffer.
\<close>

definition subarrayLen :: "int \<Rightarrow> real \<Rightarrow> int" where
  "subarrayLen len e =
     (if toInteger e < 0 then max (len + toInteger e) 0 else min (toInteger e) len)"

text \<open>\<^verbatim>\<open>x % (1024 * 1024) === 0\<close>: the number is a whole multiple of 1 MiB.\<close>

definition wholeMiB :: "real \<Rightarrow> bool" where
  "wholeMiB x = (x / MiB = of_int \<lfloor>x / MiB\<rfloor>)"

section \<open>Sessions, messages and frames\<close>

datatype phase = Download | Upload

text \<open>
  The per-connection object (\<^verbatim>\<open>sessionInfo\<close>, \<^verbatim>\<open>clientInfo\<close>). \<open>testPhase = None\<close>
  is the source's \<^verbatim>\<open>null\<close>. The identity fields (\<^verbatim>\<open>id\<close>, \<^verbatim>\<open>ip\<close>,
  \<^verbatim>\<open>userAgent\<close>, \<^verbatim>\<open>connectedAt\<close>) are never read again and are left out. The start
  time is written by every start handler before anything reads it; its initial
  \<^verbatim>\<open>null\<close> is written \<open>0\<close>, which is what the subtraction would take it for.
\<close>

record session =
  testPhase :: "phase option"
  bytesTransferred :: real
  testStartTime :: int
  lastActivity :: int

definition newSession :: "int \<Rightarrow> session" where
  "newSession now =
     \<lparr>testPhase = None, bytesTransferred = 0, testStartTime = 0, lastActivity = now\<rparr>"

text \<open>The value of a field of a parsed control frame, as far as \<^verbatim>\<open>typeof\<close> tells them apart.\<close>

datatype jsvalue = JUndefined | JNull | JBool bool | JNumber real | JString string | JObject

definition isNumber :: "jsvalue \<Rightarrow> bool" where
  "isNumber v = (case v of JNumber n \<Rightarrow> True | _ \<Rightarrow> False)"

text \<open>
  A received frame. \<open>Malformed\<close> is text that \<^verbatim>\<open>JSON.parse\<close> rejects; \<open>NullFrame\<close> is
  the JSON text \<^verbatim>\<open>null\<close>, on which \<^verbatim>\<open>data.type\<close> raises and \<^verbatim>\<open>data?.type\<close> does
  not; \<open>Unknown\<close> is any other frame whose \<^verbatim>\<open>type\<close> no case matches (for the
  upgrade endpoint, a binary frame too). The \<^verbatim>\<open>size\<close> and \<^verbatim>\<open>chunkSize\<close> of a
  \<open>DownloadStart\<close> are finite numbers when present; a frame that carries a string,
  a boolean or an object there, or a number so large that it parses to infinity, is
  outside the model. \<open>UploadData v d\<close> is an
  \<^verbatim>\<open>upload_data\<close> frame with its \<^verbatim>\<open>byteLength\<close> field \<open>v\<close> (read by the upgrade
  endpoint) and its \<^verbatim>\<open>data\<close> field (read by the Durable Object): a string or an array
  when present, so only its length \<open>d\<close> is kept.
\<close>

datatype message =
    Ping "int option"
  | DownloadStart "real option" "real option"
  | UploadStart
  | UploadData jsvalue "nat option"
  | TestComplete
  | Unknown
  | NullFrame
  | Malformed

record pong =
  clientTimestamp :: int
  serverTimestamp :: int
  serverProcessingTime :: int

text \<open>
  The frames a server sends. The wall-clock \<^verbatim>\<open>timestamp\<close> field that every control
  frame carries, and free-text \<^verbatim>\<open>message\<close> fields, are left out. \<open>Binary n\<close> is a
  payload frame of \<open>n\<close> bytes. A progress frame carries \<open>bytesSent\<close>, \<open>totalBytes\<close> and
  the text of the percentage; the progress frame of the Durable Object carries
  \<open>bytesTransferred\<close>, \<open>totalBytes\<close> and \<open>n\<close> bytes of data. The duration and the
  throughput of a completion frame are kept as the numbers that \<^verbatim>\<open>toFixed\<close> then
  renders.
\<close>

datatype frame =
    Pong pong
  | DownloadStarted real
  | Binary int
  | DownloadProgress real real rendering
  | DownloadProgressData real real int
  | DownloadComplete real real jsnum
  | DownloadCompleteDO real int
  | UploadReady
  | UploadAck real real
  | UploadAckDO real
  | TestCompleteAck
  | ErrorFrame

section \<open>Latency handlers\<close>

text \<open>
  Every binding computes the pong the same way. The clock is read twice: \<open>t1\<close> is the
  reading that \<^verbatim>\<open>data.timestamp || Date.now()\<close> takes when it needs one, \<open>t2\<close> the
  reading of \<^verbatim>\<open>const serverTimestamp = Date.now()\<close> after it.
\<close>

definition handlePingTest :: "int \<Rightarrow> int \<Rightarrow> int option \<Rightarrow> pong" where
  "handlePingTest t1 t2 ts =
     (let clientTs = or_default ts t1; serverTs = t2
      in \<lparr>clientTimestamp = clientTs, serverTimestamp = serverTs,
          serverProcessingTime = serverTs - clientTs\<rparr>)"

text \<open>
  \<^verbatim>\<open>GET /api/ping\<close> and the serverless ping function: the argument is the result of
  \<^verbatim>\<open>parseInt(req.query.timestamp)\<close>.
\<close>

definition pingHttp :: "int \<Rightarrow> int \<Rightarrow> int option \<Rightarrow> pong" where
  "pingHttp t1 t2 parsed =
     (let clientTs = or_default parsed t1; serverTs = t2
      in \<lparr>clientTimestamp = clientTs, serverTimestamp = serverTs,
          serverProcessingTime = serverTs - clientTs\<rparr>)"

text \<open>\<^verbatim>\<open>handlePing\<close> of the Durable Object, and the \<^verbatim>\<open>ping\<close> case of the upgrade endpoint.\<close>

definition handlePing :: "int \<Rightarrow> int \<Rightarrow> int option \<Rightarrow> pong" where
  "handlePing t1 t2 ts =
     (let clientTs = or_default ts t1; serverTs = t2
      in \<lparr>clientTimestamp = clientTs, serverTimestamp = serverTs,
          serverProcessingTime = serverTs - clientTs\<rparr>)"

section \<open>The route \<^verbatim>\<open>GET /api/download\<close>\<close>

text \<open>
  What the route does to the response: the declared length, the chunk writes, the end.
  \<open>Raised\<close> marks a unit that ended in an exception (\<^verbatim>\<open>crypto.randomBytes\<close> refusing
  its argument); the route writes nothing more, and what the framework does with the
  failed request is outside the model.
\<close>

datatype httpEvent = ContentLength int | Write int | End | Raised

text \<open>
  One scheduling unit of the route's \<^verbatim>\<open>sendChunk\<close>. \<open>flushed\<close> is the value that
  \<^verbatim>\<open>res.write(chunk)\<close> returns (\<open>False\<close> when the stream's buffer is over its
  high-water mark, the stream's report of backpressure); the source discards it. The
  result is the new \<open>bytesSent\<close>, the events of the unit, and whether
  \<^verbatim>\<open>setImmediate(sendChunk)\<close> was reached.
\<close>

definition sendChunk :: "bool \<Rightarrow> int \<Rightarrow> int \<Rightarrow> int \<Rightarrow> int \<times> httpEvent list \<times> bool" where
  "sendChunk flushed safeSize chunkSize bytesSent =
     (if safeSize \<le> bytesSent then (bytesSent, [End], False)
      else
        let remainingBytes = safeSize - bytesSent;
            currentChunkSize = min chunkSize remainingBytes
        in if \<not> randomBytesOk currentChunkSize then (bytesSent, [Raised], False)
           else (bytesSent + currentChunkSize, [Write currentChunkSize], True))"

text \<open>
  The units of one response in sequence; \<open>flushed k\<close> is what the write of unit \<open>k\<close>
  reports. The loop ends when a unit schedules no successor.
\<close>

partial_function (option) sendChunks ::
  "(nat \<Rightarrow> bool) \<Rightarrow> nat \<Rightarrow> int \<Rightarrow> int \<Rightarrow> int \<Rightarrow> httpEvent list \<Rightarrow> httpEvent list option" where
  "sendChunks flushed k safeSize chunkSize bytesSent acc =
     (let r = sendChunk (flushed k) safeSize chunkSize bytesSent
      in if snd (snd r)
         then sendChunks flushed (Suc k) safeSize chunkSize (fst r) (acc @ fst (snd r))
         else Some (acc @ fst (snd r)))"

declare sendChunks.simps [code]

text \<open>The route handler; its arguments are the two \<^verbatim>\<open>parseInt\<close> results.\<close>

definition download :: "(nat \<Rightarrow> bool) \<Rightarrow> int option \<Rightarrow> int option \<Rightarrow> httpEvent list option" where
  "download flushed requested chunk =
     sendChunks flushed 0 (safeSizeOf requested) (chunkSizeOf chunk) 0
       [ContentLength (safeSizeOf requested)]"

section \<open>The socket server of the Node backend\<close>

text \<open>
  The progress frame that the two chunk-sending sockets send after a chunk, when one is
  due: \<^verbatim>\<open>if (bytesSent % (1024 * 1024) === 0 || bytesSent === safeSize)\<close>.
\<close>

definition progressAt :: "real \<Rightarrow> real \<Rightarrow> frame list" where
  "progressAt safeSize b =
     (if wholeMiB b \<or> b = safeSize
      then [DownloadProgress b safeSize (toFixed1 (percentOf b safeSize))] else [])"

text \<open>
  One scheduling unit of \<^verbatim>\<open>sendNextChunk\<close>: either the completion frame, or one binary
  write, a slice of the buffer of \<open>chunkSize\<close> bytes, whose completion callback is then
  outstanding (the second component is the \<open>currentChunkSize\<close> the callback has
  captured).
\<close>

definition sendNextChunk ::
  "int \<Rightarrow> real \<Rightarrow> real \<Rightarrow> real \<Rightarrow> session \<Rightarrow> frame list \<times> real option" where
  "sendNextChunk now safeSize chunkSize bytesSent clientInfo =
     (if safeSize \<le> bytesSent then
        ([DownloadComplete safeSize (durationSeconds (testStartTime clientInfo) now)
            (throughputMBps safeSize (testStartTime clientInfo) now)], None)
      else
        let remainingBytes = safeSize - bytesSent;
            currentChunkSize = min chunkSize remainingBytes
        in ([Binary (subarrayLen (toInteger chunkSize) currentChunkSize)],
            Some currentChunkSize))"

text \<open>
  The completion callback of a chunk write, \<^verbatim>\<open>(err) => { ... }\<close>. The result is the new
  \<open>bytesSent\<close>, the client record, the frames sent, and whether
  \<^verbatim>\<open>process.nextTick(sendNextChunk)\<close> was reached.
\<close>

definition onWritten ::
  "bool \<Rightarrow> real \<Rightarrow> real \<Rightarrow> real \<Rightarrow> session \<Rightarrow> real \<times> session \<times> frame list \<times> bool" where
  "onWritten err currentChunkSize safeSize bytesSent clientInfo =
     (if err then (bytesSent, clientInfo, [], False)
      else
        let b = bytesSent + currentChunkSize;
            ci = clientInfo\<lparr>bytesTransferred := b\<rparr>
        in (b, ci, progressAt safeSize b, b < safeSize))"

text \<open>
  What is outstanding for a download on the reactor: the completion callback of a write
  in flight, or a \<^verbatim>\<open>process.nextTick(sendNextChunk)\<close>. Each carries the variables of its
  closure: \<open>safeSize\<close>, \<open>chunkSize\<close>, \<open>bytesSent\<close> (and \<open>currentChunkSize\<close>).
\<close>

datatype task = Callback real real real real | NextTick real real real

text \<open>
  One connection: the client record, the outstanding tasks, the frames sent, and whether
  the transport is under backpressure (its send buffer is over its limit). A send on
  this socket returns nothing and the source reads no buffer level, so no unit can depend
  on \<open>wsCongested\<close>; it is there for statements about a unit that runs under backpressure.
\<close>

record wsConn =
  clientInfo :: session
  tasks :: "task list"
  wsSent :: "frame list"
  wsCongested :: bool

text \<open>
  A fresh connection. The client record of this server has no \<open>lastActivity\<close>; the field
  of the shared record is never touched here.
\<close>

definition wsOpen :: wsConn where
  "wsOpen = \<lparr>clientInfo = newSession 0, tasks = [], wsSent = [], wsCongested = False\<rparr>"

text \<open>
  \<^verbatim>\<open>handleDownloadTest\<close>, up to the return of its synchronous call of
  \<^verbatim>\<open>sendNextChunk\<close>. The buffer is allocated after the client record is reset and
  before the start frame; a refused allocation is caught by the message listener, which
  answers with its error object.
\<close>

definition handleDownloadTest :: "int \<Rightarrow> real option \<Rightarrow> real option \<Rightarrow> wsConn \<Rightarrow> wsConn" where
  "handleDownloadTest now requested chunk c =
     (let chunkSize = chunkSizeOf chunk;
          safeSize = safeSizeOf requested;
          ci = (clientInfo c)\<lparr>testPhase := Some Download, bytesTransferred := 0,
                 testStartTime := now\<rparr>
      in if \<not> randomBytesOk chunkSize then
           c\<lparr>clientInfo := ci, wsSent := wsSent c @ [ErrorFrame]\<rparr>
         else
           (case sendNextChunk now safeSize chunkSize 0 ci of
              (fs, w) \<Rightarrow>
                c\<lparr>clientInfo := ci,
                  tasks := tasks c @
                    (case w of None \<Rightarrow> [] | Some cur \<Rightarrow> [Callback safeSize chunkSize 0 cur]),
                  wsSent := wsSent c @ DownloadStarted safeSize # fs\<rparr>))"

text \<open>
  The reactor runs the oldest outstanding task. \<open>err\<close> is the error the transport hands
  to a completion callback (\<open>False\<close>: the write went out). With one download
  outstanding, which is all that the statements below rely on, the order is the
  program's; \<open>wsDrain\<close> runs the tasks until none is left, the \<open>k\<close>-th with the clock
  reading \<open>clock k\<close> and the transport's answer \<open>errs k\<close>.
\<close>

definition wsStep :: "bool \<Rightarrow> int \<Rightarrow> wsConn \<Rightarrow> wsConn" where
  "wsStep err now c =
     (case tasks c of
        [] \<Rightarrow> c
      | Callback safeSize chunkSize bytesSent cur # rest \<Rightarrow>
          (case onWritten err cur safeSize bytesSent (clientInfo c) of
             (b, ci, fs, again) \<Rightarrow>
               c\<lparr>clientInfo := ci,
                 tasks := rest @ (if again then [NextTick safeSize chunkSize b] else []),
                 wsSent := wsSent c @ fs\<rparr>)
      | NextTick safeSize chunkSize bytesSent # rest \<Rightarrow>
          (case sendNextChunk now safeSize chunkSize bytesSent (clientInfo c) of
             (fs, w) \<Rightarrow>
               c\<lparr>tasks := rest @
                    (case w of None \<Rightarrow> []
                     | Some cur \<Rightarrow> [Callback safeSize chunkSize bytesSent cur]),
                 wsSent := wsSent c @ fs\<rparr>))"

partial_function (option) wsDrain ::
  "(nat \<Rightarrow> bool) \<Rightarrow> (nat \<Rightarrow> int) \<Rightarrow> nat \<Rightarrow> wsConn \<Rightarrow> wsConn option" where
  "wsDrain errs clock k c =
     (if tasks c = [] then Some c
      else wsDrain errs clock (Suc k) (wsStep (errs k) (clock k) c))"

declare wsDrain.simps [code]

section \<open>The Durable Object \<^verbatim>\<open>WebSocketState\<close>\<close>

text \<open>
  A call of \<^verbatim>\<open>ws.send\<close>: on the open socket, or on the socket after its close event.
\<close>

datatype call = Delivered frame | OnClosed frame

definition wsSend :: "bool \<Rightarrow> frame \<Rightarrow> call" where
  "wsSend isOpen f = (if isOpen then Delivered f else OnClosed f)"

text \<open>
  One scheduling unit of the object's \<^verbatim>\<open>sendChunk\<close>. \<open>throws\<close> says that
  \<^verbatim>\<open>ws.send\<close> raises in this unit, which it can only do on a closed socket. The result:
  whether the unit ended in an exception, the new \<open>bytesSent\<close>, the session, the frames
  handed to \<^verbatim>\<open>ws.send\<close>, and whether \<^verbatim>\<open>setTimeout(sendChunk, 1)\<close> was reached.
\<close>

definition sendChunkDO ::
  "bool \<Rightarrow> int \<Rightarrow> real \<Rightarrow> real \<Rightarrow> real \<Rightarrow> session
     \<Rightarrow> bool \<times> real \<times> session \<times> frame list \<times> bool" where
  "sendChunkDO throws now safeSize chunkSize bytesSent s =
     (if safeSize \<le> bytesSent then
        (throws, bytesSent, s, [DownloadCompleteDO bytesSent (now - testStartTime s)], False)
      else
        let remainingBytes = safeSize - bytesSent;
            currentChunkSize = min chunkSize remainingBytes
        in if \<not> uint8ArrayOk currentChunkSize then (True, bytesSent, s, [], False)
           else if throws then
             (True, bytesSent, s,
              [DownloadProgressData (bytesSent + currentChunkSize) safeSize
                 (toInteger currentChunkSize)],
              False)
           else
             (False, bytesSent + currentChunkSize,
              s\<lparr>bytesTransferred := bytesSent + currentChunkSize\<rparr>,
              [DownloadProgressData (bytesSent + currentChunkSize) safeSize
                 (toInteger currentChunkSize)],
              True))"

text \<open>
  One connection of the object: its session, whether the \<^verbatim>\<open>sessions\<close> map still holds
  it, whether the socket is open, the pending \<^verbatim>\<open>sendChunk\<close> timers (each closure with
  its \<open>safeSize\<close>, \<open>chunkSize\<close> and \<open>bytesSent\<close>), the calls of \<^verbatim>\<open>ws.send\<close>, and
  whether the transport is under backpressure. As on the Node socket, a send returns
  nothing and no unit can depend on \<open>doCongested\<close>.
\<close>

record doConn =
  sessionInfo :: session
  registered :: bool
  socketOpen :: bool
  pending :: "(real \<times> real \<times> real) list"
  calls :: "call list"
  doCongested :: bool

definition fetch :: "int \<Rightarrow> doConn" where
  "fetch now =
     \<lparr>sessionInfo = newSession now, registered = True, socketOpen = True, pending = [],
      calls = [], doCongested = False\<rparr>"

text \<open>
  \<^verbatim>\<open>handleMessage\<close> with the handlers it calls. A message is delivered only while the
  socket is open. The frame is parsed before \<open>lastActivity\<close> is written. An exception
  anywhere in the \<^verbatim>\<open>try\<close> block sends the error frame; for the download handler, whose
  synchronous first call of \<^verbatim>\<open>sendChunk\<close> can raise, that frame is appended where the
  handler's result is assembled. The listener reads the clock once per message.
\<close>

definition handleUploadStart :: "int \<Rightarrow> session \<Rightarrow> session" where
  "handleUploadStart now s =
     s\<lparr>testPhase := Some Upload, bytesTransferred := 0, testStartTime := now\<rparr>"

definition handleUploadData :: "nat option \<Rightarrow> session \<Rightarrow> session" where
  "handleUploadData d s =
     (let chunkSize = (case d of None \<Rightarrow> 0 | Some n \<Rightarrow> real n)
      in s\<lparr>bytesTransferred := bytesTransferred s + chunkSize\<rparr>)"

definition handleDownloadTestDO :: "int \<Rightarrow> real option \<Rightarrow> real option \<Rightarrow> doConn \<Rightarrow> doConn" where
  "handleDownloadTestDO now requested chunk c =
     (let chunkSize = chunkSizeOf chunk;
          safeSize = safeSizeOf requested;
          s1 = (sessionInfo c)\<lparr>testPhase := Some Download, bytesTransferred := 0,
                 testStartTime := now\<rparr>
      in case sendChunkDO False now safeSize chunkSize 0 s1 of
           (raised, b, s2, fs, again) \<Rightarrow>
             c\<lparr>sessionInfo := s2,
               pending := pending c @ (if again then [(safeSize, chunkSize, b)] else []),
               calls := calls c @
                 map Delivered (DownloadStarted safeSize # fs @ (if raised then [ErrorFrame] else []))\<rparr>)"

definition handleMessage :: "int \<Rightarrow> message \<Rightarrow> doConn \<Rightarrow> doConn" where
  "handleMessage now m c =
     (let c1 = c\<lparr>sessionInfo := (sessionInfo c)\<lparr>lastActivity := now\<rparr>\<rparr> in
      case m of
        Malformed \<Rightarrow> c\<lparr>calls := calls c @ [Delivered ErrorFrame]\<rparr>
      | Ping ts \<Rightarrow> c1\<lparr>calls := calls c @ [Delivered (Pong (handlePing now now ts))]\<rparr>
      | DownloadStart requested chunk \<Rightarrow> handleDownloadTestDO now requested chunk c1
      | UploadStart \<Rightarrow>
          c1\<lparr>sessionInfo := handleUploadStart now (sessionInfo c1),
             calls := calls c @ [Delivered UploadReady]\<rparr>
      | UploadData v d \<Rightarrow>
          c1\<lparr>sessionInfo := handleUploadData d (sessionInfo c1),
             calls := calls c @
               [Delivered (UploadAckDO (bytesTransferred (handleUploadData d (sessionInfo c1))))]\<rparr>
      | TestComplete \<Rightarrow> c1\<lparr>calls := calls c @ [Delivered TestCompleteAck]\<rparr>
      | Unknown \<Rightarrow> c1
      | NullFrame \<Rightarrow> c1\<lparr>calls := calls c @ [Delivered ErrorFrame]\<rparr>)"

text \<open>
  The close event: the socket is closed, and the listener runs
  \<^verbatim>\<open>this.sessions.delete(server)\<close>. The error listener does the same.
\<close>

definition onClose :: "doConn \<Rightarrow> doConn" where
  "onClose c = c\<lparr>registered := False, socketOpen := False\<rparr>"

text \<open>
  The oldest pending timer fires. \<open>throwsWhenClosed\<close> is the runtime's answer to a
  \<^verbatim>\<open>send\<close> on a closed socket: raise, or drop the frame. An exception in a timer
  callback has no handler; the unit just ends.
\<close>

definition onTimerDO :: "bool \<Rightarrow> int \<Rightarrow> doConn \<Rightarrow> doConn" where
  "onTimerDO throwsWhenClosed now c =
     (case pending c of
        [] \<Rightarrow> c
      | (safeSize, chunkSize, bytesSent) # rest \<Rightarrow>
          (case sendChunkDO (\<not> socketOpen c \<and> throwsWhenClosed) now safeSize chunkSize bytesSent
                  (sessionInfo c) of
             (raised, b, s, fs, again) \<Rightarrow>
               c\<lparr>sessionInfo := s,
                 pending := rest @ (if again then [(safeSize, chunkSize, b)] else []),
                 calls := calls c @ map (wsSend (socketOpen c)) fs\<rparr>))"

partial_function (option) drainDO ::
  "bool \<Rightarrow> (nat \<Rightarrow> int) \<Rightarrow> nat \<Rightarrow> doConn \<Rightarrow> doConn option" where
  "drainDO throwsWhenClosed clock k c =
     (if pending c = [] then Some c
      else drainDO throwsWhenClosed clock (Suc k) (onTimerDO throwsWhenClosed (clock k) c))"

declare drainDO.simps [code]

section \<open>The upgrade endpoint \<^verbatim>\<open>onRequestGET\<close>\<close>

text \<open>
  One scheduling unit of \<^verbatim>\<open>sendNext\<close>. The counter of the loop is the session's
  \<open>bytesTransferred\<close>, which the message listener writes too. The chunk is a slice of
  the buffer of \<open>chunkSize\<close> bytes. The result is the session, the frames sent in this
  unit, and whether \<^verbatim>\<open>setTimeout(sendNext, 0)\<close> was reached.
\<close>

definition sendNext :: "int \<Rightarrow> real \<Rightarrow> real \<Rightarrow> session \<Rightarrow> session \<times> frame list \<times> bool" where
  "sendNext now safeSize chunkSize s =
     (if safeSize \<le> bytesTransferred s then
        (s, [DownloadComplete safeSize (durationSeconds (testStartTime s) now)
               (throughputMBps safeSize (testStartTime s) now)], False)
      else
        let remaining = safeSize - bytesTransferred s;
            current = min chunkSize remaining;
            s' = s\<lparr>bytesTransferred := bytesTransferred s + current\<rparr>
        in (s',
            Binary (subarrayLen (toInteger chunkSize) current) #
              progressAt safeSize (bytesTransferred s'),
            True))"

text \<open>
  The state of one connection on the reactor: the session, the queue of pending
  \<^verbatim>\<open>sendNext\<close> timers (each closure with its \<open>safeSize\<close> and \<open>chunkSize\<close>), the frames
  sent so far, and whether the transport is under backpressure. A send on this socket
  returns nothing, so no unit can depend on \<open>congested\<close>.
\<close>

record conn =
  sess :: session
  timers :: "(real \<times> real) list"
  sent :: "frame list"
  congested :: bool

definition openConn :: "int \<Rightarrow> conn" where
  "openConn now = \<lparr>sess = newSession now, timers = [], sent = [], congested = False\<rparr>"

text \<open>
  The message listener. \<open>lastActivity\<close> is written before the frame is parsed. An
  exception anywhere in the \<^verbatim>\<open>try\<close> block sends the error frame; what was written and
  sent before it stays. The socket is open whenever a unit of this endpoint runs, and the
  listener reads the clock once per message.
\<close>

definition onMessage :: "int \<Rightarrow> message \<Rightarrow> conn \<Rightarrow> conn" where
  "onMessage now m c =
     (let s = (sess c)\<lparr>lastActivity := now\<rparr> in
      case m of
        Malformed \<Rightarrow> c\<lparr>sess := s, sent := sent c @ [ErrorFrame]\<rparr>
      | Ping ts \<Rightarrow> c\<lparr>sess := s, sent := sent c @ [Pong (handlePing now now ts)]\<rparr>
      | DownloadStart requested chunk \<Rightarrow>
          (let chunkSize = chunkSizeOf chunk;
               safeSize = safeSizeOf requested;
               s1 = s\<lparr>testPhase := Some Download, bytesTransferred := 0, testStartTime := now\<rparr>
           in if \<not> uint8ArrayOk chunkSize then
                c\<lparr>sess := s1, sent := sent c @ [DownloadStarted safeSize, ErrorFrame]\<rparr>
              else
                (case sendNext now safeSize chunkSize s1 of
                   (s2, fs, again) \<Rightarrow>
                     c\<lparr>sess := s2,
                       timers := timers c @ (if again then [(safeSize, chunkSize)] else []),
                       sent := sent c @ DownloadStarted safeSize # fs\<rparr>))
      | UploadStart \<Rightarrow>
          c\<lparr>sess := s\<lparr>testPhase := Some Upload, bytesTransferred := 0, testStartTime := now\<rparr>,
            sent := sent c @ [UploadReady]\<rparr>
      | UploadData v d \<Rightarrow>
          (case v of
             JNumber n \<Rightarrow>
               c\<lparr>sess := s\<lparr>bytesTransferred := bytesTransferred s + n\<rparr>,
                 sent := sent c @ [UploadAck n (bytesTransferred s + n)]\<rparr>
           | _ \<Rightarrow> c\<lparr>sess := s\<rparr>)
      | TestComplete \<Rightarrow>
          c\<lparr>sess := s\<lparr>testPhase := None\<rparr>, sent := sent c @ [TestCompleteAck]\<rparr>
      | Unknown \<Rightarrow> c\<lparr>sess := s\<rparr>
      | NullFrame \<Rightarrow> c\<lparr>sess := s\<rparr>)"

text \<open>The oldest pending timer fires: one more unit of its \<^verbatim>\<open>sendNext\<close>.\<close>

definition onTimer :: "int \<Rightarrow> conn \<Rightarrow> conn" where
  "onTimer now c =
     (case timers c of
        [] \<Rightarrow> c
      | (safeSize, chunkSize) # rest \<Rightarrow>
          (case sendNext now safeSize chunkSize (sess c) of
             (s', fs, again) \<Rightarrow>
               c\<lparr>sess := s',
                 timers := rest @ (if again then [(safeSize, chunkSize)] else []),
                 sent := sent c @ fs\<rparr>))"

text \<open>
  The reactor runs the pending timers, unit \<open>k\<close> at time \<open>clock k\<close>, until none is left:
  a run in which no message arrives before the last timer has fired.
\<close>

partial_function (option) drain :: "(nat \<Rightarrow> int) \<Rightarrow> nat \<Rightarrow> conn \<Rightarrow> conn option" where
  "drain clock k c =
     (if timers c = [] then Some c else drain clock (Suc k) (onTimer (clock k) c))"

declare drain.simps [code]

text \<open>
  What can happen next on a connection: a frame arrives, the oldest timer fires, or the
  transport's send buffer fills or empties.
\<close>

datatype event = Receive int message | Fire int | Congest bool

definition step :: "event \<Rightarrow> conn \<Rightarrow> conn" where
  "step e c =
     (case e of
        Receive now m \<Rightarrow> onMessage now m c
      | Fire now \<Rightarrow> onTimer now c
      | Congest b \<Rightarrow> c\<lparr>congested := b\<rparr>)"

definition steps :: "event list \<Rightarrow> conn \<Rightarrow> conn" where
  "steps es c = foldl (\<lambda>c e. step e c) c es"

text \<open>
  Three kinds of event can lower the counter. A start message sets it to \<open>0\<close>. An
  \<^verbatim>\<open>upload_data\<close> frame whose \<^verbatim>\<open>byteLength\<close> is a negative number adds that number.
  And a download started with a chunk size between \<open>-1\<close> and \<open>0\<close> gets its buffer (of
  \<open>0\<close> bytes), after which every unit of its loop adds the negative chunk size.
\<close>

definition isStart :: "event \<Rightarrow> bool" where
  "isStart e =
     (case e of
        Receive now (DownloadStart requested chunk) \<Rightarrow> True
      | Receive now UploadStart \<Rightarrow> True
      | _ \<Rightarrow> False)"

definition negativeUpload :: "event \<Rightarrow> bool" where
  "negativeUpload e =
     (case e of Receive now (UploadData (JNumber n) d) \<Rightarrow> n < 0 | _ \<Rightarrow> False)"

definition negativeChunk :: "event \<Rightarrow> bool" where
  "negativeChunk e =
     (case e of
        Receive now (DownloadStart requested (Some chunkSize)) \<Rightarrow> - 1 < chunkSize \<and> chunkSize < 0
      | _ \<Rightarrow> False)"

text \<open>
  Every pending timer of a connection belongs to a download with a positive chunk size.
\<close>

definition timersSound :: "conn \<Rightarrow> bool" where
  "timersSound c = list_all (\<lambda>(safeSize, chunkSize). 0 < chunkSize) (timers c)"

section \<open>Reading a trace\<close>

text \<open>The payload bytes of a list of frames, and its progress frames.\<close>

definition payloadOf :: "frame \<Rightarrow> int" where
  "payloadOf f =
     (case f of Binary n \<Rightarrow> n | DownloadProgressData b t n \<Rightarrow> n | _ \<Rightarrow> 0)"

definition payloadBytes :: "frame list \<Rightarrow> int" where
  "payloadBytes fs = sum_list (map payloadOf fs)"


definition isComplete :: "frame \<Rightarrow> bool" where
  "isComplete f =
     (case f of DownloadComplete b d t \<Rightarrow> True | DownloadCompleteDO b d \<Rightarrow> True | _ \<Rightarrow> False)"

definition binaries :: "frame list \<Rightarrow> int list" where
  "binaries fs = concat (map (\<lambda>f. case f of Binary n \<Rightarrow> [n] | _ \<Rightarrow> []) fs)"

text \<open>
  Environments for concrete runs: a clock that advances one millisecond per scheduling
  unit, a clock that stands still, a transport that reports no write error, and streams
  that report every write flushed, or every write held back.
\<close>

definition steadyClock :: "int \<Rightarrow> nat \<Rightarrow> int" where
  "steadyClock t0 k = t0 + int k"

definition frozenClock :: "int \<Rightarrow> nat \<Rightarrow> int" where
  "frozenClock t0 k = t0"

definition noError :: "nat \<Rightarrow> bool" where
  "noError k = False"

definition alwaysFlushed :: "nat \<Rightarrow> bool" where
  "alwaysFlushed k = True"

definition neverFlushed :: "nat \<Rightarrow> bool" where
  "neverFlushed k = False"

text \<open>
  The chunk sizes that the specification prescribes for a run with whole-number sizes:
  each chunk is the smaller of the chunk size and what remains, down to a shorter final
  slice.
\<close>

function chunkPlan :: "int \<Rightarrow> int \<Rightarrow> int \<Rightarrow> int list" where
  "chunkPlan chunkSize safeSize bytesSent =
     (if 0 < chunkSize \<and> bytesSent < safeSize
      then min chunkSize (safeSize - bytesSent) #
           chunkPlan chunkSize safeSize (bytesSent + min chunkSize (safeSize - bytesSent))
      else [])"
  by pat_completeness auto
termination
  by (relation "measure (\<lambda>(chunkSize, safeSize, bytesSent). nat (safeSize - bytesSent))") auto

declare chunkPlan.simps [simp del]

text \<open>
  The frames of the chunk phase of a run with whole-number sizes on the two sockets that
  send binary chunks: each chunk of the plan, followed by the progress frame when one is
  due at the count reached.
\<close>

function chunkTrace :: "int \<Rightarrow> int \<Rightarrow> int \<Rightarrow> frame list" where
  "chunkTrace chunkSize safeSize bytesSent =
     (if 0 < chunkSize \<and> bytesSent < safeSize
      then Binary (min chunkSize (safeSize - bytesSent)) #
           progressAt (of_int safeSize)
             (of_int (bytesSent + min chunkSize (safeSize - bytesSent))) @
           chunkTrace chunkSize safeSize (bytesSent + min chunkSize (safeSize - bytesSent))
      else [])"
  by pat_completeness auto
termination
  by (relation "measure (\<lambda>(chunkSize, safeSize, bytesSent). nat (safeSize - bytesSent))") auto

declare chunkTrace.simps [simp del]


text \<open>The specification's clamp of a requested value into an interval.\<close>

definition clampTo :: "'a::linorder \<Rightarrow> 'a \<Rightarrow> 'a \<Rightarrow> 'a" where
  "clampTo lo hi x = max lo (min hi x)"

section \<open>Whole numbers among the numbers of a socket\<close>

lemma toInteger_of_int [simp]: "toInteger (of_int n) = n"
  by (simp add: toInteger_def)


lemma uint8ArrayOk_of_int: "uint8ArrayOk (of_int n) = (0 \<le> n \<and> n \<le> 2 ^ 53 - 1)"
  by (simp add: uint8ArrayOk_def)

lemma real_min_of_int: "min (real_of_int x) (real_of_int y) = real_of_int (min x y)"
  by (simp add: of_int_min)

lemma real_diff_of_int: "real_of_int x - real_of_int y = real_of_int (x - y)"
  by simp

lemma real_add_of_int: "real_of_int x + real_of_int y = real_of_int (x + y)"
  by simp

lemma subarrayLen_min: "0 < cs \<Longrightarrow> 0 < r \<Longrightarrow> subarrayLen cs (of_int (min cs r)) = min cs r"
  by (simp add: subarrayLen_def)

section \<open>Facts about traces\<close>

lemma payloadBytes_Nil [simp]: "payloadBytes [] = 0"
  by (simp add: payloadBytes_def)

lemma payloadBytes_Cons [simp]: "payloadBytes (f # fs) = payloadOf f + payloadBytes fs"
  by (simp add: payloadBytes_def)

lemma payloadBytes_append [simp]: "payloadBytes (fs @ gs) = payloadBytes fs + payloadBytes gs"
  by (simp add: payloadBytes_def)

lemma payloadBytes_progressAt [simp]: "payloadBytes (progressAt ss b) = 0"
  by (simp add: progressAt_def payloadOf_def)

lemma binaries_Nil [simp]: "binaries [] = []"
  by (simp add: binaries_def)

lemma binaries_append [simp]: "binaries (fs @ gs) = binaries fs @ binaries gs"
  by (simp add: binaries_def)

lemma binaries_Binary [simp]: "binaries (Binary n # fs) = n # binaries fs"
  by (simp add: binaries_def)

lemma binaries_progressAt [simp]: "binaries (progressAt ss b) = []"
  by (simp add: progressAt_def binaries_def)

lemma payloadBytes_chunkTrace:
  "0 < cs \<Longrightarrow> b \<le> ss \<Longrightarrow> payloadBytes (chunkTrace cs ss b) = ss - b"
proof (induction cs ss b rule: chunkTrace.induct)
  case (1 cs ss b)
  show ?case
  proof (cases "b < ss")
    case True
    with 1 show ?thesis
      by (subst chunkTrace.simps) (simp add: payloadOf_def min_def)
  next
    case False
    with 1 show ?thesis by (subst chunkTrace.simps) simp
  qed
qed

lemma binaries_chunkTrace: "binaries (chunkTrace cs ss b) = chunkPlan cs ss b"
proof (induction cs ss b rule: chunkTrace.induct)
  case (1 cs ss b)
  show ?case
  proof (cases "0 < cs \<and> b < ss")
    case True
    with 1 show ?thesis
      by (simp add: chunkTrace.simps[of cs ss b] chunkPlan.simps[of cs ss b])
  next
    case False
    then have "chunkTrace cs ss b = []" "chunkPlan cs ss b = []"
      by (auto simp: chunkTrace.simps[of cs ss b] chunkPlan.simps[of cs ss b])
    then show ?thesis by simp
  qed
qed

lemma chunkPlan_bounds:
  "n \<in> set (chunkPlan cs ss b) \<Longrightarrow> 0 < n \<and> n \<le> cs \<and> n \<le> ss - b"
proof (induction cs ss b rule: chunkPlan.induct)
  case (1 cs ss b)
  show ?case
  proof (cases "0 < cs \<and> b < ss")
    case True
    from "1.prems" True have "n = min cs (ss - b) \<or> n \<in> set (chunkPlan cs ss (b + min cs (ss - b)))"
      by (subst (asm) chunkPlan.simps) simp
    then show ?thesis
    proof
      assume "n = min cs (ss - b)" with True show ?thesis by simp
    next
      assume "n \<in> set (chunkPlan cs ss (b + min cs (ss - b)))"
      from "1.IH"[OF True this] True show ?thesis by (simp add: min_def split: if_splits)
    qed
  next
    case False
    with "1.prems" show ?thesis by (subst (asm) chunkPlan.simps) simp
  qed
qed

lemma sum_chunkPlan: "0 < cs \<Longrightarrow> b \<le> ss \<Longrightarrow> sum_list (chunkPlan cs ss b) = ss - b"
proof (induction cs ss b rule: chunkPlan.induct)
  case (1 cs ss b)
  show ?case
  proof (cases "b < ss")
    case True
    with 1 show ?thesis by (subst chunkPlan.simps) (simp add: min_def)
  next
    case False
    with 1 show ?thesis by (subst chunkPlan.simps) simp
  qed
qed



lemma chunkTrace_step:
  "0 < cs \<Longrightarrow> b < ss \<Longrightarrow>
   chunkTrace cs ss b =
     Binary (min cs (ss - b)) # progressAt (of_int ss) (of_int (b + min cs (ss - b))) @
       chunkTrace cs ss (b + min cs (ss - b))"
  by (subst chunkTrace.simps) simp

lemma chunkTrace_done: "ss \<le> b \<Longrightarrow> chunkTrace cs ss b = []"
  by (subst chunkTrace.simps) simp

section \<open>Units and runs of the upgrade endpoint\<close>

lemma sendNext_chunk:
  "0 < cs \<Longrightarrow> b < ss \<Longrightarrow> bytesTransferred s = of_int b \<Longrightarrow>
   sendNext now (of_int ss) (of_int cs) s =
     (s\<lparr>bytesTransferred := of_int (b + min cs (ss - b))\<rparr>,
      Binary (min cs (ss - b)) # progressAt (of_int ss) (of_int (b + min cs (ss - b))),
      True)"
  unfolding sendNext_def Let_def
  by (simp add: real_diff_of_int real_min_of_int real_add_of_int subarrayLen_min
      del: of_int_diff of_int_add)

lemma sendNext_complete:
  "ss \<le> bytesTransferred s \<Longrightarrow>
   sendNext now ss cs s =
     (s, [DownloadComplete ss (durationSeconds (testStartTime s) now)
            (throughputMBps ss (testStartTime s) now)], False)"
  by (simp add: sendNext_def)

text \<open>
  A connection with one pending download of whole-number sizes, on which nothing else
  happens, runs to completion: the chunk phase, then the completion frame of the unit
  that finds nothing left.
\<close>

lemma drain_timer:
  assumes cs: "0 < cs"
  shows "timers c = [(of_int ss, of_int cs)] \<Longrightarrow> bytesTransferred (sess c) = of_int b \<Longrightarrow>
    b \<le> ss \<Longrightarrow>
    \<exists>j. k \<le> j \<and> drain clock k c =
      Some (c\<lparr>sess := (sess c)\<lparr>bytesTransferred := of_int ss\<rparr>, timers := [],
              sent := sent c @ chunkTrace cs ss b @
                [DownloadComplete (of_int ss) (durationSeconds (testStartTime (sess c)) (clock j))
                   (throughputMBps (of_int ss) (testStartTime (sess c)) (clock j))]\<rparr>)"
proof (induction "nat (ss - b)" arbitrary: c k b rule: less_induct)
  case less
  show ?case
  proof (cases "b < ss")
    case False
    with less.prems have eq: "b = ss" by simp
    have t: "chunkTrace cs ss ss = []" by (simp add: chunkTrace_done)
    have "drain clock k c = drain clock (Suc k) (onTimer (clock k) c)"
      using less.prems by (subst drain.simps) simp
    also have "onTimer (clock k) c = c\<lparr>timers := [],
       sent := sent c @ [DownloadComplete (of_int ss) (durationSeconds (testStartTime (sess c)) (clock k))
                   (throughputMBps (of_int ss) (testStartTime (sess c)) (clock k))]\<rparr>"
      using less.prems eq by (simp add: onTimer_def sendNext_complete)
    also have "drain clock (Suc k) \<dots> = Some \<dots>"
      by (subst drain.simps) simp
    finally show ?thesis using eq t less.prems by (intro exI[of _ k]) simp
  next
    case True
    define cur where "cur = min cs (ss - b)"
    have curpos: "0 < cur" using True cs by (simp add: cur_def)
    define c1 where "c1 = c\<lparr>sess := (sess c)\<lparr>bytesTransferred := of_int (b + cur)\<rparr>,
        sent := sent c @ Binary cur # progressAt (of_int ss) (of_int (b + cur))\<rparr>"
    have fire: "onTimer (clock k) c = c1"
      using less.prems(1) sendNext_chunk[OF cs True less.prems(2)]
      by (simp add: onTimer_def c1_def cur_def)
    have d: "drain clock k c = drain clock (Suc k) c1"
      using less.prems fire by (subst drain.simps) simp
    have m: "nat (ss - (b + cur)) < nat (ss - b)"
      using True curpos by simp
    have t1: "timers c1 = [(of_int ss, of_int cs)]" using less.prems by (simp add: c1_def)
    have b1: "bytesTransferred (sess c1) = of_int (b + cur)" by (simp add: c1_def)
    have b2: "b + cur \<le> ss" using True by (simp add: cur_def)
    from less.hyps[OF m t1 b1 b2, of "Suc k"] obtain j where j: "Suc k \<le> j"
      and r: "drain clock (Suc k) c1 =
        Some (c1\<lparr>sess := (sess c1)\<lparr>bytesTransferred := of_int ss\<rparr>, timers := [],
              sent := sent c1 @ chunkTrace cs ss (b + cur) @
                [DownloadComplete (of_int ss) (durationSeconds (testStartTime (sess c1)) (clock j))
                   (throughputMBps (of_int ss) (testStartTime (sess c1)) (clock j))]\<rparr>)"
      by blast
    have unf: "chunkTrace cs ss b =
        Binary cur # progressAt (of_int ss) (of_int (b + cur)) @ chunkTrace cs ss (b + cur)"
      using chunkTrace_step[OF cs True] by (simp add: cur_def)
    show ?thesis
      using d r j unf by (intro exI[of _ j]) (simp add: c1_def)
  qed
qed

section \<open>Units and runs of the download route\<close>

lemma sendChunk_write:
  "0 < cs \<Longrightarrow> 0 \<le> b \<Longrightarrow> b < ss \<Longrightarrow> ss \<le> maxSize \<Longrightarrow>
   sendChunk flushed ss cs b = (b + min cs (ss - b), [Write (min cs (ss - b))], True)"
  by (auto simp add: sendChunk_def Let_def randomBytesOk_def maxSize_def min_def)

lemma sendChunk_end: "ss \<le> b \<Longrightarrow> sendChunk flushed ss cs b = (b, [End], False)"
  by (simp add: sendChunk_def)

lemma sendChunks_run:
  assumes cs: "0 < cs" and ss: "ss \<le> maxSize"
  shows "0 \<le> b \<Longrightarrow>
    sendChunks flushed k ss cs b acc = Some (acc @ map Write (chunkPlan cs ss b) @ [End])"
proof (induction "nat (ss - b)" arbitrary: b k acc rule: less_induct)
  case less
  show ?case
  proof (cases "b < ss")
    case False
    then have "chunkPlan cs ss b = []" by (simp add: chunkPlan.simps[of cs ss b])
    with False show ?thesis
      by (subst sendChunks.simps) (simp add: sendChunk_end)
  next
    case True
    have m: "nat (ss - (b + min cs (ss - b))) < nat (ss - b)"
      using True cs by (simp add: min_def)
    have unf: "chunkPlan cs ss b = min cs (ss - b) # chunkPlan cs ss (b + min cs (ss - b))"
      using True cs by (subst chunkPlan.simps) simp
    have nn: "0 \<le> b + min cs (ss - b)" using less.prems True cs by simp
    show ?thesis
      using less.hyps[OF m nn, of "Suc k" "acc @ [Write (min cs (ss - b))]"] True cs ss unf less.prems
      by (subst sendChunks.simps) (simp add: sendChunk_write)
  qed
qed

section \<open>Units and runs of the Node socket server\<close>

lemma sendNextChunk_chunk:
  "0 < cs \<Longrightarrow> b < ss \<Longrightarrow>
   sendNextChunk now (of_int ss) (of_int cs) (of_int b) ci =
     ([Binary (min cs (ss - b))], Some (of_int (min cs (ss - b))))"
  unfolding sendNextChunk_def Let_def
  by (simp add: real_diff_of_int real_min_of_int subarrayLen_min
      del: of_int_diff of_int_add)

lemma onWritten_ok:
  "onWritten False cur ss b ci =
     (b + cur, ci\<lparr>bytesTransferred := b + cur\<rparr>, progressAt ss (b + cur), b + cur < ss)"
  by (simp add: onWritten_def Let_def)

lemma wsDrain_callback:
  assumes cs: "0 < cs"
  shows "tasks c = [Callback (of_int ss) (of_int cs) (of_int b) (of_int (min cs (ss - b)))] \<Longrightarrow>
    b < ss \<Longrightarrow>
    wsDrain noError clock k c =
      Some (c\<lparr>clientInfo := (clientInfo c)\<lparr>bytesTransferred := of_int ss\<rparr>, tasks := [],
              wsSent := wsSent c @ progressAt (of_int ss) (of_int (b + min cs (ss - b))) @
                chunkTrace cs ss (b + min cs (ss - b))\<rparr>)"
proof (induction "nat (ss - b)" arbitrary: c b k rule: less_induct)
  case less
  define b1 where "b1 = b + min cs (ss - b)"
  define c1 where "c1 = c\<lparr>clientInfo := (clientInfo c)\<lparr>bytesTransferred := of_int b1\<rparr>,
     tasks := (if b1 < ss then [NextTick (of_int ss) (of_int cs) (of_int b1)] else []),
     wsSent := wsSent c @ progressAt (of_int ss) (of_int b1)\<rparr>"
  have s1: "wsStep False (clock k) c = c1"
    using less.prems
    by (simp add: wsStep_def onWritten_ok c1_def b1_def real_add_of_int del: of_int_add)
  have d1: "wsDrain noError clock k c = wsDrain noError clock (Suc k) c1"
    using less.prems s1 by (subst wsDrain.simps) (simp add: noError_def)
  have b1le: "b1 \<le> ss" using less.prems by (simp add: b1_def)
  show ?case
  proof (cases "b1 < ss")
    case False
    with b1le have e: "b1 = ss" by simp
    have "chunkTrace cs ss ss = []" by (simp add: chunkTrace_done)
    moreover have "wsDrain noError clock (Suc k) c1 = Some c1"
      using False by (subst wsDrain.simps) (simp add: c1_def)
    ultimately show ?thesis using d1 e by (simp add: c1_def b1_def[symmetric])
  next
    case True
    define c2 where "c2 = c1\<lparr>tasks := [Callback (of_int ss) (of_int cs) (of_int b1)
        (of_int (min cs (ss - b1)))],
      wsSent := wsSent c1 @ [Binary (min cs (ss - b1))]\<rparr>"
    have s2: "wsStep False (clock (Suc k)) c1 = c2"
      using True cs by (simp add: wsStep_def c1_def c2_def sendNextChunk_chunk)
    have d2: "wsDrain noError clock (Suc k) c1 = wsDrain noError clock (Suc (Suc k)) c2"
      using True s2 by (subst wsDrain.simps) (simp add: c1_def noError_def)
    have m: "nat (ss - b1) < nat (ss - b)"
      using less.prems cs by (simp add: b1_def min_def)
    have t2: "tasks c2 = [Callback (of_int ss) (of_int cs) (of_int b1) (of_int (min cs (ss - b1)))]"
      by (simp add: c2_def)
    have unf: "chunkTrace cs ss b1 = Binary (min cs (ss - b1)) #
        progressAt (of_int ss) (of_int (b1 + min cs (ss - b1))) @
        chunkTrace cs ss (b1 + min cs (ss - b1))"
      using chunkTrace_step[OF cs True] .
    show ?thesis
      using less.hyps[OF m t2 True, of "Suc (Suc k)"] d1 d2 unf
      by (simp add: c2_def c1_def b1_def[symmetric])
  qed
qed

section \<open>Whole download runs on the two chunk-sending sockets\<close>

lemma onMessage_download_start:
  assumes "chunkSizeOf C = of_int cs" and "safeSizeOf S = of_int ss"
    and "0 < cs" and "cs \<le> 2 ^ 53 - 1" and "0 < ss"
  shows "onMessage now (DownloadStart S C) c =
    c\<lparr>sess := (sess c)\<lparr>lastActivity := now, testPhase := Some Download,
                 bytesTransferred := of_int (min cs ss), testStartTime := now\<rparr>,
      timers := timers c @ [(of_int ss, of_int cs)],
      sent := sent c @ DownloadStarted (of_int ss) # Binary (min cs ss) #
                progressAt (of_int ss) (of_int (min cs ss))\<rparr>"
proof -
  let ?s1 = "(sess c)\<lparr>lastActivity := now, testPhase := Some Download, bytesTransferred := 0,
     testStartTime := now\<rparr>"
  have b: "bytesTransferred ?s1 = of_int 0" by simp
  have u: "uint8ArrayOk (of_int cs)" using assms by (simp add: uint8ArrayOk_of_int)
  show ?thesis
    using sendNext_chunk[OF assms(3) assms(5) b, of now] u
    by (simp add: onMessage_def Let_def assms(1,2))
qed

lemma download_run:
  assumes C: "chunkSizeOf C = of_int cs" and S: "safeSizeOf S = of_int ss"
    and cs: "0 < cs" and cs2: "cs \<le> 2 ^ 53 - 1" and ss: "0 < ss" and idle: "timers c = []"
  shows "\<exists>j. k < j \<and>
    drain clock (Suc k) (onMessage (clock k) (DownloadStart S C) c) =
      Some (c\<lparr>sess := (sess c)\<lparr>lastActivity := clock k, testPhase := Some Download,
                   bytesTransferred := of_int ss, testStartTime := clock k\<rparr>,
              timers := [],
              sent := sent c @ DownloadStarted (of_int ss) # chunkTrace cs ss 0 @
                [DownloadComplete (of_int ss) (durationSeconds (clock k) (clock j))
                   (throughputMBps (of_int ss) (clock k) (clock j))]\<rparr>)"
proof -
  let ?c1 = "onMessage (clock k) (DownloadStart S C) c"
  note st = onMessage_download_start[OF C S cs cs2 ss]
  have t: "timers ?c1 = [(of_int ss, of_int cs)]"
    using idle by (simp add: st)
  have b: "bytesTransferred (sess ?c1) = of_int (min cs ss)"
    by (simp add: st)
  have le: "min cs ss \<le> ss" by simp
  from drain_timer[OF cs t b le, of "Suc k" clock] obtain j where j: "Suc k \<le> j"
    and r: "drain clock (Suc k) ?c1 =
      Some (?c1\<lparr>sess := (sess ?c1)\<lparr>bytesTransferred := of_int ss\<rparr>, timers := [],
              sent := sent ?c1 @ chunkTrace cs ss (min cs ss) @
                [DownloadComplete (of_int ss)
                   (durationSeconds (testStartTime (sess ?c1)) (clock j))
                   (throughputMBps (of_int ss) (testStartTime (sess ?c1)) (clock j))]\<rparr>)"
    by blast
  have "k < j" using j by simp
  moreover have "drain clock (Suc k) ?c1 = Some (c\<lparr>sess := (sess c)\<lparr>lastActivity := clock k,
                   testPhase := Some Download,
                   bytesTransferred := of_int ss, testStartTime := clock k\<rparr>,
              timers := [],
              sent := sent c @ DownloadStarted (of_int ss) # chunkTrace cs ss 0 @
                [DownloadComplete (of_int ss) (durationSeconds (clock k) (clock j))
                   (throughputMBps (of_int ss) (clock k) (clock j))]\<rparr>)"
    unfolding r using cs ss
    by (simp add: st chunkTrace_step[of cs 0 ss])
  ultimately show ?thesis by blast
qed

lemma handleDownloadTest_start:
  assumes "chunkSizeOf C = of_int cs" and "safeSizeOf S = of_int ss"
    and "0 < cs" and "cs \<le> 2 ^ 31 - 1" and "0 < ss"
  shows "handleDownloadTest now S C w =
    w\<lparr>clientInfo := (clientInfo w)\<lparr>testPhase := Some Download, bytesTransferred := 0,
                 testStartTime := now\<rparr>,
      tasks := tasks w @ [Callback (of_int ss) (of_int cs) 0 (of_int (min cs ss))],
      wsSent := wsSent w @ [DownloadStarted (of_int ss), Binary (min cs ss)]\<rparr>"
proof -
  have r: "randomBytesOk (real_of_int cs)"
    using assms(3,4) by (simp add: randomBytesOk_def)
  show ?thesis
    using sendNextChunk_chunk[OF assms(3) assms(5), of now] r
    by (simp add: handleDownloadTest_def Let_def assms(1,2))
qed

lemma ws_download_run:
  assumes C: "chunkSizeOf C = of_int cs" and S: "safeSizeOf S = of_int ss"
    and cs: "0 < cs" and cs2: "cs \<le> 2 ^ 31 - 1" and ss: "0 < ss" and idle: "tasks w = []"
  shows "wsDrain noError clock k (handleDownloadTest now S C w) =
    Some (w\<lparr>clientInfo := (clientInfo w)\<lparr>testPhase := Some Download,
                 bytesTransferred := of_int ss, testStartTime := now\<rparr>,
            tasks := [],
            wsSent := wsSent w @ DownloadStarted (of_int ss) # chunkTrace cs ss 0\<rparr>)"
proof -
  let ?w1 = "handleDownloadTest now S C w"
  note st = handleDownloadTest_start[OF C S cs cs2 ss]
  have t: "tasks ?w1 = [Callback (of_int ss) (of_int cs) (of_int 0) (of_int (min cs (ss - 0)))]"
    using idle by (simp add: st)
  show ?thesis
    unfolding wsDrain_callback[OF cs t ss, of clock k]
    using cs ss
    by (simp add: st chunkTrace_step[of cs 0 ss])
qed

lemma safeSizeOf_of_int: "1 \<le> s \<Longrightarrow> safeSizeOf (Some (real_of_int s)) = of_int (min s maxSize)"
  by (simp add: safeSizeOf_def or_default_def maxSize_def min_def)

lemma chunkSizeOf_of_int: "1 \<le> n \<Longrightarrow> chunkSizeOf (Some (real_of_int n)) = of_int n"
  by (simp add: chunkSizeOf_def or_default_def)

lemma chunkSizeOf_absent: "chunkSizeOf None = real_of_int defaultChunk"
  by (simp add: chunkSizeOf_def or_default_def defaultChunk_def)

lemma safeSizeOf_absent: "safeSizeOf None = real_of_int defaultSize"
  by (simp add: safeSizeOf_def or_default_def defaultSize_def maxSize_def)

section \<open>Total bytes of a download run\<close>

text \<open>
  C1 as stated fails in three ways, each shown on the upgrade endpoint. At requested
  size \<open>0\<close> with chunk size 1 MiB, \<^verbatim>\<open>data.size || 1024 * 1024\<close> takes the default and
  the run emits 1048576 payload bytes, where \<open>min(0, 100 MiB)\<close> is \<open>0\<close>. At size 200000
  with chunk size 50000, an \<^verbatim>\<open>upload_data\<close> frame with \<^verbatim>\<open>byteLength\<close> 100000 that
  arrives after the first chunk adds to the counter that the loop counts with: the run
  emits 100000 payload bytes, and its completion frame reports 200000. At size 3 with
  chunk size 1.5, each chunk is the slice \<^verbatim>\<open>subarray(0, 1.5)\<close> of a one-byte buffer:
  the run emits 2 payload bytes and reports 3.
\<close>

theorem download_total_size_zero_counterexample:
  "drain (steadyClock 1700000000000) 1
     (onMessage 1700000000000 (DownloadStart (Some 0) (Some 1048576)) (openConn 1699999999000)) =
   Some \<lparr>sess = \<lparr>testPhase = Some Download, bytesTransferred = 1048576,
                  testStartTime = 1700000000000, lastActivity = 1700000000000\<rparr>,
         timers = [],
         sent = [DownloadStarted 1048576, Binary 1048576,
                 DownloadProgress 1048576 1048576 (Decimal ''100.0''),
                 DownloadComplete 1048576 (1 / 1000) (Finite 1000)],
         congested = False\<rparr> \<and>
   payloadBytes [DownloadStarted 1048576, Binary 1048576,
                 DownloadProgress 1048576 1048576 (Decimal ''100.0''),
                 DownloadComplete 1048576 (1 / 1000) (Finite 1000)] = 1048576 \<and>
   min 0 maxSize = (0::int) \<and>
   sent (steps [Receive 1700000000000 (DownloadStart (Some 200000) (Some 50000)),
                Receive 1700000000001 (UploadData (JNumber 100000) None),
                Fire 1700000000002, Fire 1700000000003] (openConn 1699999999000)) =
     [DownloadStarted 200000, Binary 50000, UploadAck 100000 150000, Binary 50000,
      DownloadProgress 200000 200000 (Decimal ''100.0''),
      DownloadComplete 200000 (3 / 1000) (Finite (390625 / 6144))] \<and>
   timers (steps [Receive 1700000000000 (DownloadStart (Some 200000) (Some 50000)),
                Receive 1700000000001 (UploadData (JNumber 100000) None),
                Fire 1700000000002, Fire 1700000000003] (openConn 1699999999000)) = [] \<and>
   payloadBytes [DownloadStarted 200000, Binary 50000, UploadAck 100000 150000, Binary 50000,
      DownloadProgress 200000 200000 (Decimal ''100.0''),
      DownloadComplete 200000 (3 / 1000) (Finite (390625 / 6144))] = 100000 \<and>
   drain (steadyClock 1700000000000) 1
     (onMessage 1700000000000 (DownloadStart (Some 3) (Some (3 / 2))) (openConn 1699999999000)) =
   Some \<lparr>sess = \<lparr>testPhase = Some Download, bytesTransferred = 3,
                  testStartTime = 1700000000000, lastActivity = 1700000000000\<rparr>,
         timers = [],
         sent = [DownloadStarted 3, Binary 1, Binary 1,
                 DownloadProgress 3 3 (Decimal ''100.0''),
                 DownloadComplete 3 (1 / 500) (Finite (375 / 262144))],
         congested = False\<rparr> \<and>
   payloadBytes [DownloadStarted 3, Binary 1, Binary 1,
                 DownloadProgress 3 3 (Decimal ''100.0''),
                 DownloadComplete 3 (1 / 500) (Finite (375 / 262144))] = 2"
  by (simp add: throughputMBps_def durationSeconds_def js_div_def drain.simps onMessage_def
      onTimer_def sendNext_def openConn_def newSession_def chunkSizeOf_def safeSizeOf_def
      or_default_def maxSize_def defaultSize_def uint8ArrayOk_def subarrayLen_def MiB_def
      percentOf_def steadyClock_def payloadBytes_def payloadOf_def progressAt_def wholeMiB_def
      toFixed1_def toInteger_def natText.simps digitChar_def Let_def steps_def step_def)

text \<open>
  C1 (amended). Let the requested size \<open>S \<ge> 1\<close> and the chunk size \<open>C \<ge> 1\<close> be whole
  numbers, let the connection have no other download pending when the request arrives,
  and let no other message be handled before the run ends. Then a download run on the
  upgrade endpoint (for \<open>C \<le> 2^53 - 1\<close>, so that the buffer can be allocated) and a
  download run on the Node socket server (for \<open>C \<le> 2^31 - 1\<close>, and with every write
  acknowledged without error) emits a total of \<open>min(S, 100 MiB)\<close> payload bytes across
  all chunks, each chunk being \<open>min(C, remaining)\<close> bytes, the shorter final slice
  included. On the upgrade endpoint the run ends with the completion frame, whose
  \<open>bytesSent\<close> is the \<open>totalBytes\<close> that the start frame declared.
\<close>

theorem download_total_bytes:
  "1 \<le> S \<Longrightarrow> 1 \<le> C \<Longrightarrow> timers c = [] \<Longrightarrow> tasks w = [] \<Longrightarrow>
   (C \<le> 2 ^ 53 - 1 \<longrightarrow>
     (\<exists>c' d t.
        drain clock (Suc k)
          (onMessage (clock k) (DownloadStart (Some (of_int S)) (Some (of_int C))) c) = Some c' \<and>
        sent c' = sent c @ DownloadStarted (of_int (min S maxSize)) #
          chunkTrace C (min S maxSize) 0 @ [DownloadComplete (of_int (min S maxSize)) d t])) \<and>
   (C \<le> 2 ^ 31 - 1 \<longrightarrow>
     (\<exists>w' fs.
        wsDrain noError clock (Suc k)
          (handleDownloadTest (clock k) (Some (of_int S)) (Some (of_int C)) w) = Some w' \<and>
        wsSent w' = wsSent w @ DownloadStarted (of_int (min S maxSize)) # fs \<and>
        payloadBytes fs = min S maxSize \<and>
        binaries fs = chunkPlan C (min S maxSize) 0)) \<and>
   payloadBytes (chunkTrace C (min S maxSize) 0) = min S maxSize \<and>
   binaries (chunkTrace C (min S maxSize) 0) = chunkPlan C (min S maxSize) 0 \<and>
   sum_list (chunkPlan C (min S maxSize) 0) = min S maxSize"
proof -
  assume S: "1 \<le> S" and C: "1 \<le> C" and idle: "timers c = []" and widle: "tasks w = []"
  have ss: "safeSizeOf (Some (real_of_int S)) = of_int (min S maxSize)"
    using S by (rule safeSizeOf_of_int)
  have cs: "chunkSizeOf (Some (real_of_int C)) = of_int C" using C by (rule chunkSizeOf_of_int)
  have sspos: "0 < min S maxSize" using S by (simp add: maxSize_def)
  have cspos: "0 < C" using C by simp
  have p: "payloadBytes (chunkTrace C (min S maxSize) 0) = min S maxSize"
    using payloadBytes_chunkTrace[of C 0 "min S maxSize"] C S by (simp add: maxSize_def)
  have b: "binaries (chunkTrace C (min S maxSize) 0) = chunkPlan C (min S maxSize) 0"
    by (rule binaries_chunkTrace)
  have s: "sum_list (chunkPlan C (min S maxSize) 0) = min S maxSize"
    using sum_chunkPlan[of C 0 "min S maxSize"] C S by (simp add: maxSize_def)
  have d: "C \<le> 2 ^ 53 - 1 \<longrightarrow>
     (\<exists>c' d t.
        drain clock (Suc k)
          (onMessage (clock k) (DownloadStart (Some (of_int S)) (Some (of_int C))) c) = Some c' \<and>
        sent c' = sent c @ DownloadStarted (of_int (min S maxSize)) #
          chunkTrace C (min S maxSize) 0 @ [DownloadComplete (of_int (min S maxSize)) d t])"
  proof
    assume c2: "C \<le> 2 ^ 53 - 1"
    from download_run[OF cs ss cspos c2 sspos idle, of k clock]
    show "\<exists>c' d t.
        drain clock (Suc k)
          (onMessage (clock k) (DownloadStart (Some (of_int S)) (Some (of_int C))) c) = Some c' \<and>
        sent c' = sent c @ DownloadStarted (of_int (min S maxSize)) #
          chunkTrace C (min S maxSize) 0 @ [DownloadComplete (of_int (min S maxSize)) d t]"
      by auto
  qed
  have w: "C \<le> 2 ^ 31 - 1 \<longrightarrow>
     (\<exists>w' fs.
        wsDrain noError clock (Suc k)
          (handleDownloadTest (clock k) (Some (of_int S)) (Some (of_int C)) w) = Some w' \<and>
        wsSent w' = wsSent w @ DownloadStarted (of_int (min S maxSize)) # fs \<and>
        payloadBytes fs = min S maxSize \<and>
        binaries fs = chunkPlan C (min S maxSize) 0)"
  proof
    assume c2: "C \<le> 2 ^ 31 - 1"
    show "\<exists>w' fs.
        wsDrain noError clock (Suc k)
          (handleDownloadTest (clock k) (Some (of_int S)) (Some (of_int C)) w) = Some w' \<and>
        wsSent w' = wsSent w @ DownloadStarted (of_int (min S maxSize)) # fs \<and>
        payloadBytes fs = min S maxSize \<and>
        binaries fs = chunkPlan C (min S maxSize) 0"
      using ws_download_run[OF cs ss cspos c2 sspos widle, of clock "Suc k" "clock k"] p b
      by simp
  qed
  show ?thesis using d w p b s by blast
qed

theorem download_total_bytes_witness:
  "(1::int) \<le> 2097152 \<and> (1::int) \<le> 1048576 \<and> timers (openConn 1699999999000) = [] \<and>
   tasks wsOpen = [] \<and> (1048576::int) \<le> 2 ^ 53 - 1 \<and> (1048576::int) \<le> 2 ^ 31 - 1 \<and>
   (\<exists>c' d t.
      drain (steadyClock 1700000000000) (Suc 0)
        (onMessage (steadyClock 1700000000000 0) (DownloadStart (Some 2097152) (Some 1048576))
           (openConn 1699999999000)) = Some c' \<and>
      sent c' = sent (openConn 1699999999000) @ DownloadStarted 2097152 #
        chunkTrace 1048576 (min 2097152 maxSize) 0 @ [DownloadComplete 2097152 d t]) \<and>
   (\<exists>w' fs.
      wsDrain noError (steadyClock 1700000000000) (Suc 0)
        (handleDownloadTest (steadyClock 1700000000000 0) (Some 2097152) (Some 1048576) wsOpen) =
        Some w' \<and>
      wsSent w' = wsSent wsOpen @ DownloadStarted 2097152 # fs \<and>
      payloadBytes fs = 2097152 \<and> binaries fs = [1048576, 1048576]) \<and>
   payloadBytes (chunkTrace 1048576 (min 2097152 maxSize) 0) = 2097152 \<and>
   chunkPlan 1048576 (min 2097152 maxSize) 0 = [1048576, 1048576] \<and>
   chunkPlan 1000000 (min 2500000 maxSize) 0 = [1000000, 1000000, 500000] \<and>
   payloadBytes (chunkTrace 1000000 (min 2500000 maxSize) 0) = 2500000"
proof -
  have a: "(1::int) \<le> 2097152" "(1::int) \<le> 1048576" "timers (openConn 1699999999000) = []"
    "tasks wsOpen = []" "(1::int) \<le> 2500000" "(1::int) \<le> 1000000"
    by (simp_all add: openConn_def wsOpen_def)
  have p1: "chunkPlan 1048576 (min 2097152 maxSize) 0 = [1048576, 1048576]"
    by (simp add: chunkPlan.simps maxSize_def)
  have p2: "chunkPlan 1000000 (min 2500000 maxSize) 0 = [1000000, 1000000, 500000]"
    by (simp add: chunkPlan.simps maxSize_def)
  show ?thesis
    using download_total_bytes [OF a(1) a(2) a(3) a(4), of "steadyClock 1700000000000" 0]
      download_total_bytes [OF a(5) a(6) a(3) a(4), of "steadyClock 1700000000000" 0]
      p1 p2 a
    by (simp add: maxSize_def)
qed

section \<open>Latency\<close>

text \<open>
  C9 as stated, at a ping that carries the client timestamp \<open>0\<close>: the number \<open>0\<close> is
  falsy, so \<^verbatim>\<open>data.timestamp || Date.now()\<close> takes the server's clock, and the response
  does not hold \<open>serverTimestamp - 0\<close>.
\<close>

theorem ping_zero_timestamp_counterexample:
  "serverProcessingTime (handlePingTest 1700000000000 1700000000005 (Some 0)) = 5 \<and>
   serverProcessingTime (handlePingTest 1700000000000 1700000000005 (Some 0))
     \<noteq> 1700000000005 - 0 \<and>
   clientTimestamp (handlePingTest 1700000000000 1700000000005 (Some 0)) = 1700000000000 \<and>
   serverProcessingTime (pingHttp 1700000000000 1700000000005 (Some 0)) = 5"
  by (simp add: handlePingTest_def pingHttp_def or_default_def)

text \<open>
  C9 (amended). For every ping request carrying a client timestamp \<open>T\<close> other than \<open>0\<close>,
  the response contains \<open>serverProcessingTime = serverTimestamp - T\<close>, where
  \<open>serverTimestamp\<close> is the server's current time; the value is negative when \<open>T\<close> is
  ahead of the server's clock. When the client supplies no timestamp, or the timestamp
  \<open>0\<close>, the server's own current time is used as \<open>clientTimestamp\<close>.
\<close>

theorem ping_processing_time:
  "(T \<noteq> 0 \<longrightarrow>
      handlePingTest t1 t2 (Some T) =
        \<lparr>clientTimestamp = T, serverTimestamp = t2, serverProcessingTime = t2 - T\<rparr> \<and>
      pingHttp t1 t2 (Some T) =
        \<lparr>clientTimestamp = T, serverTimestamp = t2, serverProcessingTime = t2 - T\<rparr> \<and>
      handlePing t1 t2 (Some T) =
        \<lparr>clientTimestamp = T, serverTimestamp = t2, serverProcessingTime = t2 - T\<rparr> \<and>
      (t2 < T \<longrightarrow> serverProcessingTime (handlePingTest t1 t2 (Some T)) < 0)) \<and>
   handlePingTest t1 t2 None =
     \<lparr>clientTimestamp = t1, serverTimestamp = t2, serverProcessingTime = t2 - t1\<rparr> \<and>
   pingHttp t1 t2 None =
     \<lparr>clientTimestamp = t1, serverTimestamp = t2, serverProcessingTime = t2 - t1\<rparr> \<and>
   handlePing t1 t2 None =
     \<lparr>clientTimestamp = t1, serverTimestamp = t2, serverProcessingTime = t2 - t1\<rparr> \<and>
   handlePingTest t1 t2 (Some 0) = handlePingTest t1 t2 None \<and>
   pingHttp t1 t2 (Some 0) = pingHttp t1 t2 None \<and>
   handlePing t1 t2 (Some 0) = handlePing t1 t2 None"
  by (simp add: handlePingTest_def pingHttp_def handlePing_def or_default_def)

theorem ping_processing_time_witness:
  "(1700000000900::int) \<noteq> 0 \<and> (1700000000005::int) < 1700000000900 \<and>
   handlePingTest 1700000000000 1700000000005 (Some 1700000000900) =
     \<lparr>clientTimestamp = 1700000000900, serverTimestamp = 1700000000005,
      serverProcessingTime = - 895\<rparr> \<and>
   serverProcessingTime (handlePingTest 1700000000000 1700000000005 (Some 1700000000900)) < 0 \<and>
   serverProcessingTime (pingHttp 1700000000000 1700000000005 (Some 1699999999990)) = 15"
  using ping_processing_time [of 1700000000900 1700000000000 1700000000005]
    ping_processing_time [of 1699999999990 1700000000000 1700000000005]
  by simp

section \<open>Throughput\<close>

text \<open>
  C3 as stated, at a run that completes within the millisecond in which it started: the
  elapsed time is \<open>0\<close>, the division is carried out, and the completion frame reports
  \<open>Infinity\<close> (and \<open>NaN\<close> for a total of \<open>0\<close> bytes), not a sentinel.
\<close>

theorem throughput_zero_duration_counterexample:
  "throughputMBps 1048576 1700000000000 1700000000000 = PosInfinity \<and>
   throughputMBps 0 1700000000000 1700000000000 = NaN \<and>
   drain (frozenClock 1700000000000) 1
     (onMessage 1700000000000 (DownloadStart (Some 1) (Some 1)) (openConn 1699999999000)) =
   Some \<lparr>sess = \<lparr>testPhase = Some Download, bytesTransferred = 1,
                  testStartTime = 1700000000000, lastActivity = 1700000000000\<rparr>,
         timers = [],
         sent = [DownloadStarted 1, Binary 1, DownloadProgress 1 1 (Decimal ''100.0''),
                 DownloadComplete 1 0 PosInfinity],
         congested = False\<rparr>"
  by (simp add: throughputMBps_def durationSeconds_def js_div_def drain.simps onMessage_def
      onTimer_def sendNext_def openConn_def newSession_def chunkSizeOf_def safeSizeOf_def
      or_default_def maxSize_def defaultSize_def uint8ArrayOk_def subarrayLen_def MiB_def
      percentOf_def frozenClock_def progressAt_def wholeMiB_def toFixed1_def toInteger_def
      natText.simps digitChar_def Let_def)

text \<open>
  C3 (amended). The throughput computation is a pure function of \<open>totalBytes\<close> and the two
  timestamps. With \<open>elapsedSeconds = (endTs - startTs) / 1000\<close>, for
  \<open>elapsedSeconds > 0\<close> it returns \<open>totalBytes / (1024 * 1024) / elapsedSeconds\<close>. There is
  no sentinel: for \<open>elapsedSeconds < 0\<close> it returns the same quotient, and for
  \<open>elapsedSeconds = 0\<close> the division by zero yields \<open>Infinity\<close>, \<open>-Infinity\<close> or
  \<open>NaN\<close> as \<open>totalBytes\<close> is positive, negative or zero. It never raises. The completion
  frames of \<^verbatim>\<open>sendNext\<close> and \<^verbatim>\<open>sendNextChunk\<close> carry exactly this value.
\<close>

theorem throughput_by_duration:
  "durationSeconds startTs endTs = real_of_int (endTs - startTs) / 1000 \<and>
   (startTs < endTs \<longrightarrow>
      0 < durationSeconds startTs endTs \<and>
      throughputMBps totalBytes startTs endTs =
        Finite (totalBytes / (1024 * 1024) / durationSeconds startTs endTs)) \<and>
   (endTs < startTs \<longrightarrow>
      durationSeconds startTs endTs < 0 \<and>
      throughputMBps totalBytes startTs endTs =
        Finite (totalBytes / (1024 * 1024) / durationSeconds startTs endTs)) \<and>
   (endTs = startTs \<longrightarrow>
      durationSeconds startTs endTs = 0 \<and>
      throughputMBps totalBytes startTs endTs =
        (if totalBytes = 0 then NaN else if 0 < totalBytes then PosInfinity else NegInfinity)) \<and>
   (safeSize \<le> bytesTransferred s \<longrightarrow>
      sendNext endTs safeSize chunkSize s =
        (s, [DownloadComplete safeSize (durationSeconds (testStartTime s) endTs)
               (throughputMBps safeSize (testStartTime s) endTs)], False)) \<and>
   (safeSize \<le> bytesSent \<longrightarrow>
      sendNextChunk endTs safeSize chunkSize bytesSent s =
        ([DownloadComplete safeSize (durationSeconds (testStartTime s) endTs)
            (throughputMBps safeSize (testStartTime s) endTs)], None))"
  by (simp add: throughputMBps_def durationSeconds_def js_div_def sendNext_def
      sendNextChunk_def)

theorem throughput_by_duration_witness:
  "(1700000000000::int) < 1700000002000 \<and>
   throughputMBps 10485760 1700000000000 1700000002000 = Finite 5 \<and>
   (1700000000000::int) < 1700000000500 \<and>
   throughputMBps 1048576 1700000000500 1700000000000 = Finite (- 2) \<and>
   throughputMBps (- 5) 1700000000000 1700000000000 = NegInfinity \<and>
   (1::real) \<le> bytesTransferred (newSession 0\<lparr>bytesTransferred := 1\<rparr>)"
  using throughput_by_duration [of 1700000000000 1700000002000 10485760 1 "newSession 0\<lparr>bytesTransferred := 1\<rparr>" 1 1]
    throughput_by_duration [of 1700000000500 1700000000000 1048576 1 "newSession 0\<lparr>bytesTransferred := 1\<rparr>" 1 1]
    throughput_by_duration [of 1700000000000 1700000000000 "- 5" 1 "newSession 0\<lparr>bytesTransferred := 1\<rparr>" 1 1]
  by (simp add: durationSeconds_def newSession_def)

section \<open>Progress cadence\<close>


lemma chunkTrace_two_MiB:
  "chunkTrace 1048576 2097152 0 =
     [Binary 1048576, DownloadProgress 1048576 2097152 (Decimal ''50.0''),
      Binary 1048576, DownloadProgress 2097152 2097152 (Decimal ''100.0'')]"
  by (simp add: chunkTrace.simps progressAt_def MiB_def percentOf_def js_div_def wholeMiB_def
      toFixed1_def natText.simps digitChar_def Let_def)






section \<open>Limits on the requested sizes\<close>

lemma chunkPlan_nonpositive: "ss \<le> b \<Longrightarrow> chunkPlan cs ss b = []"
  by (subst chunkPlan.simps) simp

lemma download_route:
  assumes "0 < chunkSizeOf C"
  shows "download flushed r C =
    Some (ContentLength (safeSizeOf r) #
          map Write (chunkPlan (chunkSizeOf C) (safeSizeOf r) 0) @ [End])"
proof -
  have "safeSizeOf r \<le> maxSize" by (simp add: safeSizeOf_def)
  from sendChunks_run[OF assms this, of 0 flushed 0 "[ContentLength (safeSizeOf r)]"]
  show ?thesis by (simp add: download_def)
qed

text \<open>
  C4 as stated, at a request for 4 MiB in chunks of 2 MiB: the route writes two chunks of
  2097152 bytes, and the Durable Object sends a chunk of 2097152 bytes, where a clamp into
  \<open>[1, 1 MiB]\<close> would give 1048576. And a requested size of \<open>-5\<close> is declared as
  \<open>-5\<close>, where a clamp into \<open>[0, 100 MiB]\<close> would give \<open>0\<close>.
\<close>

theorem size_limits_counterexample:
  "download alwaysFlushed (Some 4194304) (Some 2097152) =
     Some [ContentLength 4194304, Write 2097152, Write 2097152, End] \<and>
   clampTo 1 MiB 2097152 = (1048576::int) \<and>
   calls (handleMessage 1700000000000 (DownloadStart (Some 4194304) (Some 2097152))
            (fetch 1699999999000)) =
     [Delivered (DownloadStarted 4194304),
      Delivered (DownloadProgressData 2097152 4194304 2097152)] \<and>
   safeSizeOf (Some (- 5)) = (- 5::int) \<and>
   clampTo 0 maxSize (- 5) = (0::int)"
  by (simp add: download_def sendChunks.simps sendChunk_def chunkSizeOf_def safeSizeOf_def
      or_default_def maxSize_def defaultSize_def randomBytesOk_def clampTo_def MiB_def
      handleMessage_def handleDownloadTestDO_def sendChunkDO_def uint8ArrayOk_def
      toInteger_def fetch_def)

text \<open>
  C4 (amended). For every download request, the requested total size is capped at
  100 MiB before it is used; an absent size and the size \<open>0\<close> become the 1 MiB default
  first, and there is no lower bound, so a negative size is declared as it is. The
  requested chunk size is used as it is: absent or \<open>0\<close> becomes 64 KiB, a negative one
  makes the allocation of the first chunk raise, and there is no upper bound. Every chunk
  written is \<open>min(chunkSize, remaining)\<close>: it is positive and no larger than the chunk size
  in use or than what remains of the (at most 100 MiB) total. For a negative requested
  size no chunk is written. The sizes of the route are the integers \<open>S\<close>, \<open>K\<close>; the same
  holds of the numbers \<open>y\<close>, \<open>z\<close> that a socket reads, of whose chunk the typed array
  takes the integer part, up to its limit of \<open>2^53 - 1\<close> bytes.
\<close>

theorem size_limits:
  "safeSizeOf r \<le> maxSize \<and>
   (1 \<le> S \<longrightarrow> safeSizeOf (Some S) = clampTo 0 maxSize S) \<and>
   (S < 0 \<longrightarrow> safeSizeOf (Some S) = S) \<and>
   safeSizeOf (Some 0) = (1048576::int) \<and> safeSizeOf None = (1048576::int) \<and>
   (K \<noteq> 0 \<longrightarrow> chunkSizeOf (Some K) = K) \<and>
   chunkSizeOf (Some 0) = (65536::int) \<and> chunkSizeOf None = (65536::int) \<and>
   (0 < chunkSizeOf C \<longrightarrow>
      download flushed r C =
        Some (ContentLength (safeSizeOf r) #
              map Write (chunkPlan (chunkSizeOf C) (safeSizeOf r) 0) @ [End])) \<and>
   (chunkSizeOf C < 0 \<and> 0 < safeSizeOf r \<longrightarrow>
      download flushed r C = Some [ContentLength (safeSizeOf r), Raised]) \<and>
   (n \<in> set (chunkPlan cs ss b) \<longrightarrow> 0 < n \<and> n \<le> cs \<and> n \<le> ss - b) \<and>
   (ss \<le> 0 \<longrightarrow> chunkPlan cs ss 0 = []) \<and>
   (0 < cs \<and> b < ss \<and> min cs (ss - b) \<le> 2 ^ 53 - 1 \<longrightarrow>
      sendChunkDO False now (of_int ss) (of_int cs) (of_int b) s =
        (False, of_int (b + min cs (ss - b)),
         s\<lparr>bytesTransferred := of_int (b + min cs (ss - b))\<rparr>,
         [DownloadProgressData (of_int (b + min cs (ss - b))) (of_int ss) (min cs (ss - b))],
         True)) \<and>
   safeSizeOf q \<le> (maxSize::real) \<and>
   (1 \<le> y \<longrightarrow> safeSizeOf (Some y) = clampTo 0 maxSize (y::real)) \<and>
   (y < 0 \<longrightarrow> safeSizeOf (Some y) = (y::real)) \<and>
   safeSizeOf (Some 0) = (1048576::real) \<and> safeSizeOf None = (1048576::real) \<and>
   (z \<noteq> 0 \<longrightarrow> chunkSizeOf (Some z) = (z::real)) \<and>
   chunkSizeOf (Some 0) = (65536::real) \<and> chunkSizeOf None = (65536::real) \<and>
   (v < u \<and> uint8ArrayOk (min z (u - v)) \<longrightarrow>
      sendChunkDO False now u z v s =
        (False, v + min z (u - v), s\<lparr>bytesTransferred := v + min z (u - v)\<rparr>,
         [DownloadProgressData (v + min z (u - v)) u (toInteger (min z (u - v)))], True))"
proof -
  have a: "safeSizeOf r \<le> maxSize" by (simp add: safeSizeOf_def)
  have b: "1 \<le> S \<longrightarrow> safeSizeOf (Some S) = clampTo 0 maxSize S"
    by (auto simp add: safeSizeOf_def or_default_def clampTo_def maxSize_def)
  have c: "S < 0 \<longrightarrow> safeSizeOf (Some S) = S"
    by (simp add: safeSizeOf_def or_default_def maxSize_def)
  have d: "safeSizeOf (Some 0) = (1048576::int) \<and> safeSizeOf None = (1048576::int)"
    by (simp add: safeSizeOf_def or_default_def maxSize_def defaultSize_def)
  have e: "(K \<noteq> 0 \<longrightarrow> chunkSizeOf (Some K) = K) \<and>
      chunkSizeOf (Some 0) = (65536::int) \<and> chunkSizeOf None = (65536::int)"
    by (simp add: chunkSizeOf_def or_default_def defaultChunk_def)
  have f: "0 < chunkSizeOf C \<longrightarrow>
      download flushed r C =
        Some (ContentLength (safeSizeOf r) #
              map Write (chunkPlan (chunkSizeOf C) (safeSizeOf r) 0) @ [End])"
    using download_route[of C flushed r] by blast
  have g: "chunkSizeOf C < 0 \<and> 0 < safeSizeOf r \<longrightarrow>
      download flushed r C = Some [ContentLength (safeSizeOf r), Raised]"
    by (simp add: download_def sendChunks.simps sendChunk_def Let_def randomBytesOk_def)
  have h: "n \<in> set (chunkPlan cs ss b) \<longrightarrow> 0 < n \<and> n \<le> cs \<and> n \<le> ss - b"
    using chunkPlan_bounds[of n cs ss b] by blast
  have i: "ss \<le> 0 \<longrightarrow> chunkPlan cs ss 0 = []"
    by (simp add: chunkPlan_nonpositive)
  have j: "0 < cs \<and> b < ss \<and> min cs (ss - b) \<le> 2 ^ 53 - 1 \<longrightarrow>
      sendChunkDO False now (of_int ss) (of_int cs) (of_int b) s =
        (False, of_int (b + min cs (ss - b)),
         s\<lparr>bytesTransferred := of_int (b + min cs (ss - b))\<rparr>,
         [DownloadProgressData (of_int (b + min cs (ss - b))) (of_int ss) (min cs (ss - b))],
         True)"
  proof
    assume h: "0 < cs \<and> b < ss \<and> min cs (ss - b) \<le> 2 ^ 53 - 1"
    then have u: "uint8ArrayOk (real_of_int (min cs (ss - b)))"
      by (simp add: uint8ArrayOk_of_int)
    show "sendChunkDO False now (of_int ss) (of_int cs) (of_int b) s =
        (False, of_int (b + min cs (ss - b)),
         s\<lparr>bytesTransferred := of_int (b + min cs (ss - b))\<rparr>,
         [DownloadProgressData (of_int (b + min cs (ss - b))) (of_int ss) (min cs (ss - b))],
         True)"
      unfolding sendChunkDO_def Let_def using h u
      by (simp add: real_diff_of_int real_min_of_int real_add_of_int
          del: of_int_diff of_int_add)
  qed
  have a': "safeSizeOf q \<le> (maxSize::real)" by (simp add: safeSizeOf_def)
  have b': "1 \<le> y \<longrightarrow> safeSizeOf (Some y) = clampTo 0 maxSize (y::real)"
    by (auto simp add: safeSizeOf_def or_default_def clampTo_def maxSize_def)
  have c': "y < 0 \<longrightarrow> safeSizeOf (Some y) = (y::real)"
    by (simp add: safeSizeOf_def or_default_def maxSize_def)
  have d': "safeSizeOf (Some 0) = (1048576::real) \<and> safeSizeOf None = (1048576::real)"
    by (simp add: safeSizeOf_def or_default_def maxSize_def defaultSize_def)
  have e': "(z \<noteq> 0 \<longrightarrow> chunkSizeOf (Some z) = (z::real)) \<and>
      chunkSizeOf (Some 0) = (65536::real) \<and> chunkSizeOf None = (65536::real)"
    by (simp add: chunkSizeOf_def or_default_def defaultChunk_def)
  have j': "v < u \<and> uint8ArrayOk (min z (u - v)) \<longrightarrow>
      sendChunkDO False now u z v s =
        (False, v + min z (u - v), s\<lparr>bytesTransferred := v + min z (u - v)\<rparr>,
         [DownloadProgressData (v + min z (u - v)) u (toInteger (min z (u - v)))], True)"
    by (simp add: sendChunkDO_def Let_def)
  show ?thesis
    apply (intro conjI)
    apply (rule a)
    apply (rule b)
    apply (rule c)
    apply (rule d[THEN conjunct1])
    apply (rule d[THEN conjunct2])
    apply (rule e[THEN conjunct1])
    apply (rule e[THEN conjunct2, THEN conjunct1])
    apply (rule e[THEN conjunct2, THEN conjunct2])
    apply (rule f)
    apply (rule g)
    apply (rule h)
    apply (rule i)
    apply (rule j)
    apply (rule a')
    apply (rule b')
    apply (rule c')
    apply (rule d'[THEN conjunct1])
    apply (rule d'[THEN conjunct2])
    apply (rule e'[THEN conjunct1])
    apply (rule e'[THEN conjunct2, THEN conjunct1])
    apply (rule e'[THEN conjunct2, THEN conjunct2])
    apply (rule j')
    done
qed

theorem size_limits_witness:
  "(1::int) \<le> 200000000 \<and> safeSizeOf (Some 200000000) = (104857600::int) \<and>
   (- 5::int) < 0 \<and> safeSizeOf (Some (- 5)) = (- 5::int) \<and>
   (2097152::int) \<noteq> 0 \<and> chunkSizeOf (Some 2097152) = (2097152::int) \<and>
   (0::int) < chunkSizeOf (Some 2097152) \<and>
   download neverFlushed (Some 4194304) (Some 2097152) =
     Some [ContentLength 4194304, Write 2097152, Write 2097152, End] \<and>
   chunkSizeOf (Some (- 1)) < (0::int) \<and> (0::int) < safeSizeOf (Some 1000) \<and>
   download neverFlushed (Some 1000) (Some (- 1)) = Some [ContentLength 1000, Raised] \<and>
   download neverFlushed (Some (- 5)) (Some 2097152) = Some [ContentLength (- 5), End] \<and>
   2097152 \<in> set (chunkPlan 2097152 4194304 0) \<and>
   (0::int) < 2097152 \<and> (0::int) < 4194304 \<and> min 2097152 (4194304 - 0) \<le> (2 ^ 53 - 1::int) \<and>
   sendChunkDO False 5 4194304 2097152 0 (newSession 0) =
     (False, 2097152, newSession 0\<lparr>bytesTransferred := 2097152\<rparr>,
      [DownloadProgressData 2097152 4194304 2097152], True) \<and>
   (1::real) \<le> 200000000 \<and> safeSizeOf (Some 200000000) = (104857600::real) \<and>
   (- 5 / 2::real) < 0 \<and> safeSizeOf (Some (- 5 / 2)) = (- 5 / 2::real) \<and>
   (3 / 2::real) \<noteq> 0 \<and> chunkSizeOf (Some (3 / 2)) = (3 / 2::real) \<and>
   (0::real) < 3 \<and> uint8ArrayOk (min (3 / 2) (3 - 0)) \<and>
   sendChunkDO False 5 3 (3 / 2) 0 (newSession 0) =
     (False, 3 / 2, newSession 0\<lparr>bytesTransferred := 3 / 2\<rparr>,
      [DownloadProgressData (3 / 2) 3 1], True)"
proof -
  have p: "chunkPlan 2097152 4194304 0 = [2097152, 2097152]"
    by (simp add: chunkPlan.simps)
  have q: "chunkPlan 2097152 (- 5) 0 = []"
    by (simp add: chunkPlan.simps)
  have u: "uint8ArrayOk (min (3 / 2) (3 - 0))" "toInteger (3 / 2) = 1"
    by (simp_all add: uint8ArrayOk_def toInteger_def)
  show ?thesis
    using size_limits [where r = "Some 4194304" and S = 200000000 and K = 2097152
        and C = "Some 2097152" and flushed = neverFlushed and n = 2097152 and cs = 2097152
        and ss = 4194304 and b = 0 and now = 5 and s = "newSession 0"
        and q = "Some 1" and y = 200000000 and z = "3 / 2" and u = 3 and v = 0]
      size_limits [where r = "Some 1000" and S = "- 5" and K = "- 1"
        and C = "Some (- 1)" and flushed = neverFlushed and n = 2097152 and cs = 2097152
        and ss = "- 5" and b = 0 and now = 5 and s = "newSession 0"
        and q = "Some 1" and y = "- 5 / 2" and z = "3 / 2" and u = 3 and v = 0]
      size_limits [where r = "Some (- 5)" and S = "- 5" and K = "- 1"
        and C = "Some 2097152" and flushed = neverFlushed and n = 2097152 and cs = 2097152
        and ss = "- 5" and b = 0 and now = 5 and s = "newSession 0"
        and q = "Some 1" and y = "- 5 / 2" and z = "3 / 2" and u = 3 and v = 0]
      p q u
    by (simp add: clampTo_def maxSize_def safeSizeOf_def chunkSizeOf_def or_default_def)
qed

section \<open>A request for zero bytes\<close>

lemma toFixed1_whole: "x \<noteq> 0 \<Longrightarrow> toFixed1 (percentOf x x) = Decimal ''100.0''"
  by (simp add: percentOf_def js_div_def toFixed1_def natText.simps digitChar_def Let_def)

lemma last_progress_in_chunkTrace:
  "0 < cs \<Longrightarrow> b < ss \<Longrightarrow> 0 < ss \<Longrightarrow>
   DownloadProgress (of_int ss) (of_int ss) (Decimal ''100.0'') \<in> set (chunkTrace cs ss b)"
proof (induction cs ss b rule: chunkTrace.induct)
  case (1 cs ss b)
  show ?case
  proof (cases "b + min cs (ss - b) < ss")
    case True
    from "1.IH" "1.prems" True
    have "DownloadProgress (of_int ss) (of_int ss) (Decimal ''100.0'')
        \<in> set (chunkTrace cs ss (b + min cs (ss - b)))" by simp
    then show ?thesis using "1.prems" by (simp add: chunkTrace_step)
  next
    case False
    with "1.prems" have e: "b + min cs (ss - b) = ss" by (simp add: min_def split: if_splits)
    have "real_of_int ss \<noteq> 0" using "1.prems" by simp
    then have "toFixed1 (percentOf (real_of_int ss) (real_of_int ss)) = Decimal ''100.0''"
      by (rule toFixed1_whole)
    then show ?thesis using "1.prems" e by (simp add: chunkTrace_step progressAt_def)
  qed
qed

text \<open>
  C5 as stated, at requested size \<open>0\<close> (chunk size 1 MiB): the start frame declares
  1048576 bytes, a chunk and a progress frame follow in the same unit, and a timer is
  pending; the route declares and writes 1048576 bytes.
\<close>

theorem zero_size_request_counterexample:
  "onMessage 1700000000000 (DownloadStart (Some 0) (Some 1048576)) (openConn 1699999999000) =
     \<lparr>sess = \<lparr>testPhase = Some Download, bytesTransferred = 1048576,
              testStartTime = 1700000000000, lastActivity = 1700000000000\<rparr>,
      timers = [(1048576, 1048576)],
      sent = [DownloadStarted 1048576, Binary 1048576,
              DownloadProgress 1048576 1048576 (Decimal ''100.0'')],
      congested = False\<rparr> \<and>
   download alwaysFlushed (Some 0) (Some 1048576) =
     Some [ContentLength 1048576, Write 1048576, End]"
  by (simp add: onMessage_def sendNext_def openConn_def newSession_def chunkSizeOf_def
      safeSizeOf_def or_default_def maxSize_def defaultSize_def uint8ArrayOk_def subarrayLen_def
      MiB_def percentOf_def js_div_def download_def sendChunks.simps sendChunk_def
      randomBytesOk_def progressAt_def wholeMiB_def toFixed1_def toInteger_def natText.simps
      digitChar_def Let_def)

text \<open>
  C5 (amended). A download request with requested size \<open>0\<close> is handled exactly like a
  request that names no size, in every binding: the start frame declares
  \<open>totalBytes = 1048576\<close> (the 1 MiB default). On the upgrade endpoint, when the chunk
  size in use is a whole number between \<open>1\<close> and \<open>2^53 - 1\<close>, the connection has no
  other download pending and no other message is handled before the run ends, 1048576
  payload bytes and at least one progress event follow, and the completion frame reports
  1048576 bytes. An immediate start frame followed by a completion frame, with zero
  progress events and no chunk, is what a negative requested size \<open>S\<close> produces: on the
  upgrade endpoint and on the Node socket server when the buffer of the chunk size can be
  allocated, both frames carrying \<open>S\<close>; on the Durable Object for every numeric chunk
  size, the start frame carrying \<open>S\<close> and the completion frame \<open>totalBytes = 0\<close>. The
  route then declares the length \<open>S\<close> and ends the response without a chunk.
\<close>

theorem zero_size_request:
  "onMessage now (DownloadStart (Some 0) C) c = onMessage now (DownloadStart None C) c \<and>
   handleDownloadTest now (Some 0) C w = handleDownloadTest now None C w \<and>
   handleMessage now (DownloadStart (Some 0) C) d = handleMessage now (DownloadStart None C) d \<and>
   download flushed (Some 0) K = download flushed None K \<and>
   safeSizeOf (Some 0) = (1048576::real) \<and> safeSizeOf (Some 0) = (1048576::int) \<and>
   (chunkSizeOf C = of_int n \<and> 1 \<le> n \<and> n \<le> 2 ^ 53 - 1 \<and> timers c = [] \<longrightarrow>
      (\<exists>c' e t.
         drain clock (Suc k) (onMessage (clock k) (DownloadStart (Some 0) C) c) = Some c' \<and>
         sent c' = sent c @ DownloadStarted 1048576 # chunkTrace n 1048576 0 @
           [DownloadComplete 1048576 e t]) \<and>
      DownloadProgress 1048576 1048576 (Decimal ''100.0'') \<in> set (chunkTrace n 1048576 0) \<and>
      payloadBytes (chunkTrace n 1048576 0) = 1048576) \<and>
   (S < 0 \<and> uint8ArrayOk (chunkSizeOf C) \<longrightarrow>
      onMessage now (DownloadStart (Some S) C) c =
        c\<lparr>sess := (sess c)\<lparr>lastActivity := now, testPhase := Some Download,
                     bytesTransferred := 0, testStartTime := now\<rparr>,
          sent := sent c @ [DownloadStarted S, DownloadComplete S 0 NegInfinity]\<rparr>) \<and>
   (S < 0 \<and> randomBytesOk (chunkSizeOf C) \<longrightarrow>
      handleDownloadTest now (Some S) C w =
        w\<lparr>clientInfo := (clientInfo w)\<lparr>testPhase := Some Download, bytesTransferred := 0,
                           testStartTime := now\<rparr>,
          wsSent := wsSent w @ [DownloadStarted S, DownloadComplete S 0 NegInfinity]\<rparr>) \<and>
   (S < 0 \<longrightarrow>
      handleMessage now (DownloadStart (Some S) C) d =
        d\<lparr>sessionInfo := (sessionInfo d)\<lparr>lastActivity := now, testPhase := Some Download,
                             bytesTransferred := 0, testStartTime := now\<rparr>,
          calls := calls d @
            [Delivered (DownloadStarted S), Delivered (DownloadCompleteDO 0 0)]\<rparr>) \<and>
   (Z < 0 \<longrightarrow> download flushed (Some Z) K = Some [ContentLength Z, End])"
proof -
  have z: "safeSizeOf (Some 0) = (1048576::real)" "safeSizeOf None = (1048576::real)"
    "safeSizeOf (Some 0) = (1048576::int)" "safeSizeOf None = (1048576::int)"
    by (simp_all add: safeSizeOf_def or_default_def defaultSize_def maxSize_def)
  have a: "onMessage now (DownloadStart (Some 0) C) c = onMessage now (DownloadStart None C) c"
    by (simp add: onMessage_def z)
  have b: "handleDownloadTest now (Some 0) C w = handleDownloadTest now None C w"
    by (simp add: handleDownloadTest_def z)
  have b': "handleMessage now (DownloadStart (Some 0) C) d =
      handleMessage now (DownloadStart None C) d"
    by (simp add: handleMessage_def handleDownloadTestDO_def z)
  have e: "download flushed (Some 0) K = download flushed None K"
    by (simp add: download_def z)
  have f: "chunkSizeOf C = of_int n \<and> 1 \<le> n \<and> n \<le> 2 ^ 53 - 1 \<and> timers c = [] \<longrightarrow>
      (\<exists>c' e t.
         drain clock (Suc k) (onMessage (clock k) (DownloadStart (Some 0) C) c) = Some c' \<and>
         sent c' = sent c @ DownloadStarted 1048576 # chunkTrace n 1048576 0 @
           [DownloadComplete 1048576 e t]) \<and>
      DownloadProgress 1048576 1048576 (Decimal ''100.0'') \<in> set (chunkTrace n 1048576 0) \<and>
      payloadBytes (chunkTrace n 1048576 0) = 1048576"
  proof
    assume h: "chunkSizeOf C = of_int n \<and> 1 \<le> n \<and> n \<le> 2 ^ 53 - 1 \<and> timers c = []"
    then have h1: "chunkSizeOf C = of_int n" and h2: "0 < n" and h3: "n \<le> 2 ^ 53 - 1"
      and h4: "timers c = []" by simp_all
    have zs: "safeSizeOf (Some (0::real)) = of_int 1048576" by (simp add: z)
    from download_run[OF h1 zs h2 h3 _ h4, of k clock]
    have "\<exists>c' e t.
         drain clock (Suc k) (onMessage (clock k) (DownloadStart (Some 0) C) c) = Some c' \<and>
         sent c' = sent c @ DownloadStarted 1048576 # chunkTrace n 1048576 0 @
           [DownloadComplete 1048576 e t]"
      by auto
    moreover have "DownloadProgress 1048576 1048576 (Decimal ''100.0'')
        \<in> set (chunkTrace n 1048576 0)"
      using h2 last_progress_in_chunkTrace[of n 0 1048576] by simp
    moreover have "payloadBytes (chunkTrace n 1048576 0) = 1048576"
      using h2 payloadBytes_chunkTrace[of n 0 1048576] by simp
    ultimately show "(\<exists>c' e t.
         drain clock (Suc k) (onMessage (clock k) (DownloadStart (Some 0) C) c) = Some c' \<and>
         sent c' = sent c @ DownloadStarted 1048576 # chunkTrace n 1048576 0 @
           [DownloadComplete 1048576 e t]) \<and>
      DownloadProgress 1048576 1048576 (Decimal ''100.0'') \<in> set (chunkTrace n 1048576 0) \<and>
      payloadBytes (chunkTrace n 1048576 0) = 1048576"
      by blast
  qed
  have g: "S < 0 \<and> uint8ArrayOk (chunkSizeOf C) \<longrightarrow>
      onMessage now (DownloadStart (Some S) C) c =
        c\<lparr>sess := (sess c)\<lparr>lastActivity := now, testPhase := Some Download,
                     bytesTransferred := 0, testStartTime := now\<rparr>,
          sent := sent c @ [DownloadStarted S, DownloadComplete S 0 NegInfinity]\<rparr>"
    by (simp add: onMessage_def sendNext_def safeSizeOf_def or_default_def maxSize_def
        durationSeconds_def throughputMBps_def js_div_def)
  have h: "S < 0 \<and> randomBytesOk (chunkSizeOf C) \<longrightarrow>
      handleDownloadTest now (Some S) C w =
        w\<lparr>clientInfo := (clientInfo w)\<lparr>testPhase := Some Download, bytesTransferred := 0,
                           testStartTime := now\<rparr>,
          wsSent := wsSent w @ [DownloadStarted S, DownloadComplete S 0 NegInfinity]\<rparr>"
    by (simp add: handleDownloadTest_def sendNextChunk_def safeSizeOf_def or_default_def
        maxSize_def durationSeconds_def throughputMBps_def js_div_def)
  have i: "S < 0 \<longrightarrow>
      handleMessage now (DownloadStart (Some S) C) d =
        d\<lparr>sessionInfo := (sessionInfo d)\<lparr>lastActivity := now, testPhase := Some Download,
                             bytesTransferred := 0, testStartTime := now\<rparr>,
          calls := calls d @
            [Delivered (DownloadStarted S), Delivered (DownloadCompleteDO 0 0)]\<rparr>"
    by (simp add: handleMessage_def handleDownloadTestDO_def sendChunkDO_def safeSizeOf_def
        or_default_def maxSize_def)
  have j: "Z < 0 \<longrightarrow> download flushed (Some Z) K = Some [ContentLength Z, End]"
    by (simp add: safeSizeOf_def or_default_def maxSize_def download_def
        sendChunks.simps sendChunk_def)
  show ?thesis
    apply (intro conjI)
    apply (rule a)
    apply (rule b)
    apply (rule b')
    apply (rule e)
    apply (rule z(1))
    apply (rule z(3))
    apply (rule f)
    apply (rule g)
    apply (rule h)
    apply (rule i)
    apply (rule j)
    done
qed

theorem zero_size_request_witness:
  "chunkSizeOf None = real_of_int 65536 \<and> (1::int) \<le> 65536 \<and> (65536::int) \<le> 2 ^ 53 - 1 \<and>
   timers (openConn 0) = [] \<and>
   (\<exists>c' e t.
      drain (steadyClock 1000) (Suc 0)
        (onMessage (steadyClock 1000 0) (DownloadStart (Some 0) None) (openConn 0)) = Some c' \<and>
      sent c' = sent (openConn 0) @ DownloadStarted 1048576 #
        chunkTrace 65536 1048576 0 @ [DownloadComplete 1048576 e t]) \<and>
   (- 1::real) < 0 \<and> uint8ArrayOk (chunkSizeOf None) \<and>
   sent (onMessage 1000 (DownloadStart (Some (- 1)) None) (openConn 0)) =
     [DownloadStarted (- 1), DownloadComplete (- 1) 0 NegInfinity] \<and>
   timers (onMessage 1000 (DownloadStart (Some (- 1)) None) (openConn 0)) = [] \<and>
   (- 1::int) < 0 \<and>
   download alwaysFlushed (Some (- 1)) None = Some [ContentLength (- 1), End] \<and>
   randomBytesOk (chunkSizeOf None :: real) \<and>
   wsSent (handleDownloadTest 1000 (Some (- 1)) None wsOpen) =
     [DownloadStarted (- 1), DownloadComplete (- 1) 0 NegInfinity] \<and>
   tasks (handleDownloadTest 1000 (Some (- 1)) None wsOpen) = [] \<and>
   calls (handleMessage 1000 (DownloadStart (Some (- 1)) None) (fetch 0)) =
     [Delivered (DownloadStarted (- 1)), Delivered (DownloadCompleteDO 0 0)] \<and>
   pending (handleMessage 1000 (DownloadStart (Some (- 1)) None) (fetch 0)) = []"
  using zero_size_request [where C = None and c = "openConn 0" and clock = "steadyClock 1000"
      and k = 0 and S = "- 1" and now = 1000 and flushed = alwaysFlushed and w = wsOpen
      and d = "fetch 0" and n = 65536 and K = None and Z = "- 1"]
  by (simp add: chunkSizeOf_def or_default_def defaultChunk_def openConn_def randomBytesOk_def
      wsOpen_def fetch_def uint8ArrayOk_def toInteger_def)

section \<open>The byte counter along the events of a connection\<close>

lemma sendNext_count:
  "0 < cs \<Longrightarrow> bytesTransferred s \<le> bytesTransferred (fst (sendNext now ss cs s))"
  by (simp add: sendNext_def Let_def)

lemma allocated_chunk_positive:
  assumes "uint8ArrayOk (chunkSizeOf C)"
    and "\<not> negativeChunk (Receive now (DownloadStart S C))"
  shows "0 < chunkSizeOf C"
proof (cases C)
  case None
  then show ?thesis by (simp add: chunkSizeOf_def or_default_def defaultChunk_def)
next
  case (Some x)
  show ?thesis
  proof (cases "x = 0")
    case True
    with Some show ?thesis by (simp add: chunkSizeOf_def or_default_def defaultChunk_def)
  next
    case False
    with Some have e: "chunkSizeOf C = x" by (simp add: chunkSizeOf_def or_default_def)
    from assms(1) have "0 \<le> toInteger x" by (simp add: e uint8ArrayOk_def)
    then have "- 1 < x" by (simp add: toInteger_def split: if_splits)
    moreover from assms(2) Some have "\<not> (- 1 < x \<and> x < 0)" by (simp add: negativeChunk_def)
    ultimately show ?thesis using False e by simp
  qed
qed

lemma timersSound_onMessage:
  "timersSound c \<Longrightarrow> \<not> negativeChunk (Receive now m) \<Longrightarrow> timersSound (onMessage now m c)"
proof (cases m)
  case (DownloadStart requested chunk)
  assume s: "timersSound c" and n: "\<not> negativeChunk (Receive now m)"
  show ?thesis
  proof (cases "uint8ArrayOk (chunkSizeOf chunk)")
    case False
    with s show ?thesis by (simp add: DownloadStart onMessage_def timersSound_def)
  next
    case True
    from allocated_chunk_positive[OF True n[unfolded DownloadStart]] s True show ?thesis
      by (auto simp: DownloadStart onMessage_def timersSound_def Let_def split: prod.splits)
  qed
next
  case (UploadData v d)
  assume "timersSound c"
  then show ?thesis
    by (cases v) (simp_all add: UploadData onMessage_def timersSound_def)
qed (simp_all add: onMessage_def timersSound_def)

lemma timersSound_onTimer: "timersSound c \<Longrightarrow> timersSound (onTimer now c)"
  by (auto simp: onTimer_def timersSound_def split: list.splits prod.splits)

lemma timersSound_step: "timersSound c \<Longrightarrow> \<not> negativeChunk e \<Longrightarrow> timersSound (step e c)"
proof (cases e)
  case (Receive now m)
  assume "timersSound c" and "\<not> negativeChunk e"
  then show ?thesis by (simp add: Receive step_def timersSound_onMessage)
next
  case (Fire now)
  assume "timersSound c"
  then show ?thesis by (simp add: Fire step_def timersSound_onTimer)
next
  case (Congest b)
  assume "timersSound c"
  then show ?thesis by (simp add: Congest step_def timersSound_def)
qed

lemma steps_snoc: "steps (es @ [e]) c = step e (steps es c)"
  by (simp add: steps_def)

lemma timersSound_steps:
  "timersSound c \<Longrightarrow> \<forall>x \<in> set es. \<not> negativeChunk x \<Longrightarrow> timersSound (steps es c)"
proof (induction es rule: rev_induct)
  case Nil
  then show ?case by (simp add: steps_def)
next
  case (snoc e es)
  then show ?case by (simp add: steps_snoc timersSound_step)
qed

lemma timersSound_openConn: "timersSound (openConn t0)"
  by (simp add: timersSound_def openConn_def)

lemma onTimer_count:
  "timersSound c \<Longrightarrow> bytesTransferred (sess c) \<le> bytesTransferred (sess (onTimer now c))"
proof (cases "timers c")
  case Nil
  then show ?thesis by (simp add: onTimer_def)
next
  case (Cons t rest)
  assume snd: "timersSound c"
  obtain ss cs where t: "t = (ss, cs)" by (cases t)
  from snd Cons t have cs: "0 < cs" by (simp add: timersSound_def)
  show ?thesis
    using sendNext_count[OF cs, of "sess c" now ss]
    by (auto simp add: onTimer_def Cons t split: prod.splits)
qed

lemma onMessage_count:
  "\<not> isStart (Receive now m) \<Longrightarrow> \<not> negativeUpload (Receive now m) \<Longrightarrow>
   bytesTransferred (sess c) \<le> bytesTransferred (sess (onMessage now m c))"
proof (cases m)
  case (UploadData v d)
  assume "\<not> negativeUpload (Receive now m)"
  then show ?thesis
    by (cases v) (simp_all add: UploadData onMessage_def negativeUpload_def)
qed (simp_all add: onMessage_def isStart_def)

lemma step_count:
  "timersSound c \<Longrightarrow> \<not> isStart e \<Longrightarrow> \<not> negativeUpload e \<Longrightarrow>
   bytesTransferred (sess c) \<le> bytesTransferred (sess (step e c))"
  by (cases e) (simp_all add: step_def onMessage_count onTimer_count)

section \<open>Session invariant\<close>

lemma ceiling_minus_half: "\<lceil>- (1 / 2 :: real)\<rceil> = 0"
  by (simp add: ceiling_eq_iff)

text \<open>
  C8 as stated, at three event sequences. On the upgrade endpoint, after
  \<^verbatim>\<open>upload_start\<close> an \<^verbatim>\<open>upload_data\<close> frame with \<open>byteLength = -5\<close> lowers
  \<open>bytesTransferred\<close> from \<open>0\<close> to \<open>-5\<close> in the upload phase. On the Durable Object,
  where each download copies its own count into the session, a second download started
  while the first is running makes the counter go from 300000 back to 200000 between two
  timer units. And on the upgrade endpoint a download with chunk size \<open>-0.5\<close> gets a
  buffer of \<open>0\<close> bytes, and every unit of its loop lowers the counter by one half.
\<close>

theorem byte_counter_counterexample:
  "bytesTransferred (sess (steps [Receive 1 UploadStart] (openConn 0))) = 0 \<and>
   testPhase (sess (steps [Receive 1 UploadStart, Receive 2 (UploadData (JNumber (- 5)) None)]
     (openConn 0))) = Some Upload \<and>
   bytesTransferred
     (sess (steps [Receive 1 UploadStart, Receive 2 (UploadData (JNumber (- 5)) None)]
        (openConn 0))) = - 5 \<and>
   bytesTransferred (sessionInfo
     (onTimerDO False 4
       (handleMessage 3 (DownloadStart (Some 300000) (Some 100000))
         (onTimerDO False 2
           (handleMessage 1 (DownloadStart (Some 300000) (Some 100000)) (fetch 0)))))) = 300000 \<and>
   bytesTransferred (sessionInfo
     (onTimerDO False 5
       (onTimerDO False 4
         (handleMessage 3 (DownloadStart (Some 300000) (Some 100000))
           (onTimerDO False 2
             (handleMessage 1 (DownloadStart (Some 300000) (Some 100000)) (fetch 0))))))) = 200000 \<and>
   steps [Receive 1 (DownloadStart (Some 200000) (Some (- 1 / 2)))] (openConn 0) =
     \<lparr>sess = \<lparr>testPhase = Some Download, bytesTransferred = - 1 / 2, testStartTime = 1,
              lastActivity = 1\<rparr>,
      timers = [(200000, - 1 / 2)], sent = [DownloadStarted 200000, Binary 0],
      congested = False\<rparr> \<and>
   steps [Receive 1 (DownloadStart (Some 200000) (Some (- 1 / 2))), Fire 2] (openConn 0) =
     \<lparr>sess = \<lparr>testPhase = Some Download, bytesTransferred = - 1, testStartTime = 1,
              lastActivity = 1\<rparr>,
      timers = [(200000, - 1 / 2)], sent = [DownloadStarted 200000, Binary 0, Binary 0],
      congested = False\<rparr> \<and>
   steps [Receive 1 (DownloadStart (Some 200000) (Some (- 1 / 2))), Fire 2, Fire 3] (openConn 0) =
     \<lparr>sess = \<lparr>testPhase = Some Download, bytesTransferred = - 3 / 2, testStartTime = 1,
              lastActivity = 1\<rparr>,
      timers = [(200000, - 1 / 2)], sent = [DownloadStarted 200000, Binary 0, Binary 0, Binary 0],
      congested = False\<rparr>"
  by (simp add: steps_def step_def onMessage_def onTimer_def sendNext_def openConn_def
      newSession_def handleMessage_def
      handleDownloadTestDO_def onTimerDO_def sendChunkDO_def fetch_def chunkSizeOf_def
      safeSizeOf_def or_default_def maxSize_def uint8ArrayOk_def toInteger_def ceiling_minus_half
      subarrayLen_def progressAt_def wholeMiB_def MiB_def Let_def)

lemma onMessage_download_reset:
  "sess (onMessage now (DownloadStart S C) c) =
     (sess c)\<lparr>lastActivity := now, testPhase := Some Download,
       bytesTransferred :=
         (if uint8ArrayOk (chunkSizeOf C) \<and> 0 < safeSizeOf S
          then min (chunkSizeOf C) (safeSizeOf S) else 0),
       testStartTime := now\<rparr>"
  by (simp add: onMessage_def sendNext_def Let_def)

lemma handleMessage_download_reset:
  "sessionInfo (handleMessage now (DownloadStart S C) d) =
     (sessionInfo d)\<lparr>lastActivity := now, testPhase := Some Download,
       bytesTransferred :=
         (if 0 < safeSizeOf S \<and> uint8ArrayOk (min (chunkSizeOf C) (safeSizeOf S))
          then min (chunkSizeOf C) (safeSizeOf S) else 0),
       testStartTime := now\<rparr>"
  by (simp add: handleMessage_def handleDownloadTestDO_def sendChunkDO_def Let_def)

text \<open>
  C8 (amended). For every session, handling a download-start or upload-start message
  sets \<open>bytesTransferred\<close> to \<open>0\<close> and \<open>testStartTime\<close> to the current time. On the
  upgrade endpoint and on the Durable Object a download start then sends its first chunk
  in the same call: when the handler returns, the counter holds the size
  \<open>min(chunkSize, safeSize)\<close> of that chunk if \<open>safeSize\<close> is positive and the buffer
  was allocated, and \<open>0\<close> otherwise. On the Node socket server the count is taken in the
  callback of the write, so the counter holds \<open>0\<close> when the handler returns. On the
  upgrade endpoint, for every sequence of events since the connection was opened in
  which the sizes of the download starts are numbers or absent, \<open>bytesTransferred\<close>
  does not decrease at any step other than a start message, as long as no
  \<^verbatim>\<open>upload_data\<close> frame carries a negative \<^verbatim>\<open>byteLength\<close> and no download has been
  started with a chunk size strictly between \<open>-1\<close> and \<open>0\<close>.
\<close>

theorem start_resets_byte_counter:
  "sess (onMessage now UploadStart c) =
     (sess c)\<lparr>lastActivity := now, testPhase := Some Upload, bytesTransferred := 0,
              testStartTime := now\<rparr> \<and>
   sess (onMessage now (DownloadStart S C) c) =
     (sess c)\<lparr>lastActivity := now, testPhase := Some Download,
       bytesTransferred :=
         (if uint8ArrayOk (chunkSizeOf C) \<and> 0 < safeSizeOf S
          then min (chunkSizeOf C) (safeSizeOf S) else 0),
       testStartTime := now\<rparr> \<and>
   sessionInfo (handleMessage now UploadStart d) =
     (sessionInfo d)\<lparr>lastActivity := now, testPhase := Some Upload, bytesTransferred := 0,
                     testStartTime := now\<rparr> \<and>
   sessionInfo (handleMessage now (DownloadStart S C) d) =
     (sessionInfo d)\<lparr>lastActivity := now, testPhase := Some Download,
       bytesTransferred :=
         (if 0 < safeSizeOf S \<and> uint8ArrayOk (min (chunkSizeOf C) (safeSizeOf S))
          then min (chunkSizeOf C) (safeSizeOf S) else 0),
       testStartTime := now\<rparr> \<and>
   clientInfo (handleDownloadTest now S C w) =
     (clientInfo w)\<lparr>testPhase := Some Download, bytesTransferred := 0, testStartTime := now\<rparr> \<and>
   ((\<forall>x \<in> set es. \<not> negativeChunk x) \<and> \<not> isStart e \<and> \<not> negativeUpload e \<longrightarrow>
      bytesTransferred (sess (steps es (openConn t0)))
        \<le> bytesTransferred (sess (step e (steps es (openConn t0)))))"
proof -
  have a: "sess (onMessage now UploadStart c) =
     (sess c)\<lparr>lastActivity := now, testPhase := Some Upload, bytesTransferred := 0,
              testStartTime := now\<rparr>"
    by (simp add: onMessage_def)
  have b: "sessionInfo (handleMessage now UploadStart d) =
     (sessionInfo d)\<lparr>lastActivity := now, testPhase := Some Upload, bytesTransferred := 0,
                     testStartTime := now\<rparr>"
    by (simp add: handleMessage_def handleUploadStart_def)
  have c: "clientInfo (handleDownloadTest now S C w) =
     (clientInfo w)\<lparr>testPhase := Some Download, bytesTransferred := 0, testStartTime := now\<rparr>"
    by (simp add: handleDownloadTest_def Let_def split: prod.splits)
  have m: "(\<forall>x \<in> set es. \<not> negativeChunk x) \<and> \<not> isStart e \<and> \<not> negativeUpload e \<longrightarrow>
      bytesTransferred (sess (steps es (openConn t0)))
        \<le> bytesTransferred (sess (step e (steps es (openConn t0))))"
  proof
    assume h: "(\<forall>x \<in> set es. \<not> negativeChunk x) \<and> \<not> isStart e \<and> \<not> negativeUpload e"
    then have s: "timersSound (steps es (openConn t0))"
      using timersSound_steps[OF timersSound_openConn, of es t0] by blast
    from step_count[OF s] h
    show "bytesTransferred (sess (steps es (openConn t0)))
        \<le> bytesTransferred (sess (step e (steps es (openConn t0))))"
      by blast
  qed
  show ?thesis
    apply (intro conjI)
    apply (rule a)
    apply (rule onMessage_download_reset)
    apply (rule b)
    apply (rule handleMessage_download_reset)
    apply (rule c)
    apply (rule m)
    done
qed

theorem start_resets_byte_counter_witness:
  "\<not> negativeChunk (Receive 1 (UploadData (JNumber 7) None)) \<and>
   \<not> negativeChunk (Receive 2 UploadStart) \<and>
   \<not> isStart (Receive 3 (UploadData (JNumber 4096) None)) \<and>
   \<not> negativeUpload (Receive 3 (UploadData (JNumber 4096) None)) \<and>
   bytesTransferred (sess (steps [Receive 1 (UploadData (JNumber 7) None), Receive 2 UploadStart]
     (openConn 0))) = 0 \<and>
   bytesTransferred (sess (step (Receive 3 (UploadData (JNumber 4096) None))
     (steps [Receive 1 (UploadData (JNumber 7) None), Receive 2 UploadStart] (openConn 0)))) = 4096 \<and>
   \<not> negativeChunk (Receive 1 (DownloadStart (Some 200000) None)) \<and>
   \<not> isStart (Fire 4) \<and> \<not> negativeUpload (Fire 4) \<and>
   bytesTransferred (sess (steps [Receive 1 (DownloadStart (Some 200000) None)] (openConn 0)))
     \<le> bytesTransferred (sess (step (Fire 4)
          (steps [Receive 1 (DownloadStart (Some 200000) None)] (openConn 0)))) \<and>
   bytesTransferred (sess (onMessage 1 (DownloadStart (Some 200000) None) (openConn 0))) = 65536 \<and>
   bytesTransferred (sessionInfo (handleMessage 1 (DownloadStart (Some 200000) None) (fetch 0)))
     = 65536 \<and>
   bytesTransferred (clientInfo (handleDownloadTest 1 (Some 200000) None wsOpen)) = 0 \<and>
   wsSent (handleDownloadTest 1 (Some 200000) None wsOpen) = [DownloadStarted 200000, Binary 65536]"
  using start_resets_byte_counter [where e = "Receive 3 (UploadData (JNumber 4096) None)"
      and es = "[Receive 1 (UploadData (JNumber 7) None), Receive 2 UploadStart]" and ?t0.0 = 0
      and now = 1 and S = "Some 200000" and C = None and c = "openConn 0" and d = "fetch 0"
      and w = wsOpen]
    start_resets_byte_counter [where e = "Fire 4"
      and es = "[Receive 1 (DownloadStart (Some 200000) None)]" and ?t0.0 = 0]
  by (simp add: isStart_def negativeUpload_def negativeChunk_def steps_def step_def onMessage_def
      openConn_def newSession_def payloadOf_def uint8ArrayOk_def toInteger_def chunkSizeOf_def
      safeSizeOf_def or_default_def defaultChunk_def maxSize_def sendNext_def subarrayLen_def
      MiB_def fetch_def wsOpen_def handleDownloadTest_def sendNextChunk_def randomBytesOk_def
      Let_def)

section \<open>After the disconnection\<close>

text \<open>
  C6 as stated, on the Durable Object, at a download of 200000 bytes in chunks of 65536
  whose client disconnects after the first chunk. The close listener leaves the pending
  timer in place; when it fires, \<^verbatim>\<open>sendChunk\<close> runs and hands the next progress frame to
  the closed socket. Where such a send does not raise, the loop runs on to its completion
  frame.
\<close>

theorem disconnect_counterexample:
  "pending (onClose (handleMessage 1 (DownloadStart (Some 200000) (Some 65536)) (fetch 0))) =
     [(200000, 65536, 65536)] \<and>
   calls (onTimerDO True 2
     (onClose (handleMessage 1 (DownloadStart (Some 200000) (Some 65536)) (fetch 0)))) =
     [Delivered (DownloadStarted 200000),
      Delivered (DownloadProgressData 65536 200000 65536),
      OnClosed (DownloadProgressData 131072 200000 65536)] \<and>
   drainDO False (steadyClock 2) 0
     (onClose (handleMessage 1 (DownloadStart (Some 200000) (Some 65536)) (fetch 0))) =
   Some \<lparr>sessionInfo = \<lparr>testPhase = Some Download, bytesTransferred = 200000,
                         testStartTime = 1, lastActivity = 1\<rparr>,
         registered = False, socketOpen = False, pending = [],
         calls = [Delivered (DownloadStarted 200000),
                  Delivered (DownloadProgressData 65536 200000 65536),
                  OnClosed (DownloadProgressData 131072 200000 65536),
                  OnClosed (DownloadProgressData 196608 200000 65536),
                  OnClosed (DownloadProgressData 200000 200000 3392),
                  OnClosed (DownloadCompleteDO 200000 4)],
         doCongested = False\<rparr>"
  by (simp add: drainDO.simps onClose_def handleMessage_def handleDownloadTestDO_def
      onTimerDO_def sendChunkDO_def fetch_def newSession_def chunkSizeOf_def safeSizeOf_def
      or_default_def maxSize_def uint8ArrayOk_def toInteger_def wsSend_def steadyClock_def)

text \<open>
  C6 (amended). When a session's connection is disconnected, the close listener only
  removes the session from the \<^verbatim>\<open>sessions\<close> map: a chunk-send step that is already
  scheduled is not cancelled. When its timer fires on the closed socket the step still
  executes and hands its frame to the closed socket: the completion frame if nothing
  remains, the next progress frame otherwise; so no frame is delivered after the
  disconnection point. If the send on the closed socket raises, the step schedules no
  successor; if it does not raise, the step counts its chunk and schedules the next
  step. (A step whose chunk cannot be allocated sends nothing and schedules nothing.)
  The unit that sends the completion frame schedules nothing, and the callback of a
  failed write on the Node socket server returns without counting, sending or
  scheduling.
\<close>

theorem disconnect_leaves_timer:
  "pending (onClose c) = pending c \<and> calls (onClose c) = calls c \<and>
   \<not> socketOpen (onClose c) \<and> \<not> registered (onClose c) \<and>
   sessionInfo (onClose c) = sessionInfo c \<and>
   (\<not> socketOpen c \<and> pending c = (ss, cs, b) # rest \<and> ss \<le> b \<longrightarrow>
      onTimerDO thr now c =
        c\<lparr>pending := rest,
          calls := calls c @
            [OnClosed (DownloadCompleteDO b (now - testStartTime (sessionInfo c)))]\<rparr>) \<and>
   (\<not> socketOpen c \<and> pending c = (ss, cs, b) # rest \<and> b < ss \<and>
    uint8ArrayOk (min cs (ss - b)) \<and> thr \<longrightarrow>
      onTimerDO thr now c =
        c\<lparr>pending := rest,
          calls := calls c @
            [OnClosed (DownloadProgressData (b + min cs (ss - b)) ss
               (toInteger (min cs (ss - b))))]\<rparr>) \<and>
   (\<not> socketOpen c \<and> pending c = (ss, cs, b) # rest \<and> b < ss \<and>
    uint8ArrayOk (min cs (ss - b)) \<and> \<not> thr \<longrightarrow>
      onTimerDO thr now c =
        c\<lparr>sessionInfo := (sessionInfo c)\<lparr>bytesTransferred := b + min cs (ss - b)\<rparr>,
          pending := rest @ [(ss, cs, b + min cs (ss - b))],
          calls := calls c @
            [OnClosed (DownloadProgressData (b + min cs (ss - b)) ss
               (toInteger (min cs (ss - b))))]\<rparr>) \<and>
   (\<not> socketOpen c \<and> pending c = (ss, cs, b) # rest \<and> b < ss \<and>
    \<not> uint8ArrayOk (min cs (ss - b)) \<longrightarrow>
      onTimerDO thr now c = c\<lparr>pending := rest\<rparr>) \<and>
   (pending c = [] \<longrightarrow> onTimerDO thr now c = c) \<and>
   (ss \<le> b \<longrightarrow>
      sendChunkDO thr now ss cs b s =
        (thr, b, s, [DownloadCompleteDO b (now - testStartTime s)], False)) \<and>
   onWritten True cur ss b s = (b, s, [], False)"
proof -
  have a: "pending (onClose c) = pending c \<and> calls (onClose c) = calls c \<and>
      \<not> socketOpen (onClose c) \<and> \<not> registered (onClose c) \<and>
      sessionInfo (onClose c) = sessionInfo c"
    by (simp add: onClose_def)
  have p1: "\<not> socketOpen c \<and> pending c = (ss, cs, b) # rest \<and> ss \<le> b \<longrightarrow>
      onTimerDO thr now c =
        c\<lparr>pending := rest,
          calls := calls c @
            [OnClosed (DownloadCompleteDO b (now - testStartTime (sessionInfo c)))]\<rparr>"
    by (simp add: onTimerDO_def sendChunkDO_def wsSend_def)
  have p2: "\<not> socketOpen c \<and> pending c = (ss, cs, b) # rest \<and> b < ss \<and>
    uint8ArrayOk (min cs (ss - b)) \<and> thr \<longrightarrow>
      onTimerDO thr now c =
        c\<lparr>pending := rest,
          calls := calls c @
            [OnClosed (DownloadProgressData (b + min cs (ss - b)) ss
               (toInteger (min cs (ss - b))))]\<rparr>"
    by (simp add: onTimerDO_def sendChunkDO_def wsSend_def Let_def)
  have p3: "\<not> socketOpen c \<and> pending c = (ss, cs, b) # rest \<and> b < ss \<and>
    uint8ArrayOk (min cs (ss - b)) \<and> \<not> thr \<longrightarrow>
      onTimerDO thr now c =
        c\<lparr>sessionInfo := (sessionInfo c)\<lparr>bytesTransferred := b + min cs (ss - b)\<rparr>,
          pending := rest @ [(ss, cs, b + min cs (ss - b))],
          calls := calls c @
            [OnClosed (DownloadProgressData (b + min cs (ss - b)) ss
               (toInteger (min cs (ss - b))))]\<rparr>"
    by (simp add: onTimerDO_def sendChunkDO_def wsSend_def Let_def)
  have p4: "\<not> socketOpen c \<and> pending c = (ss, cs, b) # rest \<and> b < ss \<and>
    \<not> uint8ArrayOk (min cs (ss - b)) \<longrightarrow>
      onTimerDO thr now c = c\<lparr>pending := rest\<rparr>"
    by (simp add: onTimerDO_def sendChunkDO_def wsSend_def Let_def)
  have e: "pending c = [] \<longrightarrow> onTimerDO thr now c = c"
    by (simp add: onTimerDO_def)
  have f: "ss \<le> b \<longrightarrow>
      sendChunkDO thr now ss cs b s =
        (thr, b, s, [DownloadCompleteDO b (now - testStartTime s)], False)"
    by (simp add: sendChunkDO_def)
  have g: "onWritten True cur ss b s = (b, s, [], False)"
    by (simp add: onWritten_def)
  show ?thesis
    apply (intro conjI)
    apply (rule a[THEN conjunct1])
    apply (rule a[THEN conjunct2, THEN conjunct1])
    apply (rule a[THEN conjunct2, THEN conjunct2, THEN conjunct1])
    apply (rule a[THEN conjunct2, THEN conjunct2, THEN conjunct2, THEN conjunct1])
    apply (rule a[THEN conjunct2, THEN conjunct2, THEN conjunct2, THEN conjunct2])
    apply (rule p1)
    apply (rule p2)
    apply (rule p3)
    apply (rule p4)
    apply (rule e)
    apply (rule f)
    apply (rule g)
    done
qed

theorem disconnect_leaves_timer_witness:
  "\<not> socketOpen (onClose (handleMessage 1 (DownloadStart (Some 200000) (Some 65536)) (fetch 0))) \<and>
   pending (onClose (handleMessage 1 (DownloadStart (Some 200000) (Some 65536)) (fetch 0))) =
     [(200000, 65536, 65536)] \<and>
   (65536::real) < 200000 \<and> uint8ArrayOk (min 65536 (200000 - 65536)) \<and>
   onTimerDO True 2
     (onClose (handleMessage 1 (DownloadStart (Some 200000) (Some 65536)) (fetch 0))) =
     (onClose (handleMessage 1 (DownloadStart (Some 200000) (Some 65536)) (fetch 0)))
       \<lparr>pending := [],
        calls := [Delivered (DownloadStarted 200000),
                  Delivered (DownloadProgressData 65536 200000 65536),
                  OnClosed (DownloadProgressData 131072 200000 65536)]\<rparr> \<and>
   onTimerDO False 2
     (onClose (handleMessage 1 (DownloadStart (Some 200000) (Some 65536)) (fetch 0))) =
     (onClose (handleMessage 1 (DownloadStart (Some 200000) (Some 65536)) (fetch 0)))
       \<lparr>sessionInfo := \<lparr>testPhase = Some Download, bytesTransferred = 131072,
                         testStartTime = 1, lastActivity = 1\<rparr>,
        pending := [(200000, 65536, 131072)],
        calls := [Delivered (DownloadStarted 200000),
                  Delivered (DownloadProgressData 65536 200000 65536),
                  OnClosed (DownloadProgressData 131072 200000 65536)]\<rparr> \<and>
   \<not> socketOpen (onClose ((fetch 0)\<lparr>pending := [(200000, 65536, 200000)]\<rparr>)) \<and>
   pending (onClose ((fetch 0)\<lparr>pending := [(200000, 65536, 200000)]\<rparr>)) =
     [(200000, 65536, 200000)] \<and> (200000::real) \<le> 200000 \<and>
   onTimerDO True 9 (onClose ((fetch 0)\<lparr>pending := [(200000, 65536, 200000)]\<rparr>)) =
     (onClose (fetch 0))\<lparr>calls := [OnClosed (DownloadCompleteDO 200000 9)]\<rparr> \<and>
   pending (onClose ((fetch 0)\<lparr>pending := [(200000, - 5, 0)]\<rparr>)) = [(200000, - 5, 0)] \<and>
   (0::real) < 200000 \<and> \<not> uint8ArrayOk (min (- 5) (200000 - 0)) \<and>
   onTimerDO False 9 (onClose ((fetch 0)\<lparr>pending := [(200000, - 5, 0)]\<rparr>)) = onClose (fetch 0) \<and>
   pending (fetch 0) = [] \<and> onTimerDO True 2 (fetch 0) = fetch 0 \<and>
   sendChunkDO False 9 200000 65536 200000 (newSession 0\<lparr>testStartTime := 1\<rparr>) =
     (False, 200000, newSession 0\<lparr>testStartTime := 1\<rparr>, [DownloadCompleteDO 200000 8], False)"
  using disconnect_leaves_timer
      [where c = "onClose (handleMessage 1 (DownloadStart (Some 200000) (Some 65536)) (fetch 0))"
        and thr = True and now = 2 and ss = 200000 and b = 65536 and cs = 65536 and rest = "[]"
        and s = "newSession 0\<lparr>testStartTime := 1\<rparr>"]
    disconnect_leaves_timer
      [where c = "onClose (handleMessage 1 (DownloadStart (Some 200000) (Some 65536)) (fetch 0))"
        and thr = False and now = 2 and ss = 200000 and b = 65536 and cs = 65536 and rest = "[]"
        and s = "newSession 0\<lparr>testStartTime := 1\<rparr>"]
    disconnect_leaves_timer
      [where c = "onClose ((fetch 0)\<lparr>pending := [(200000, 65536, 200000)]\<rparr>)"
        and thr = True and now = 9 and ss = 200000 and b = 200000 and cs = 65536 and rest = "[]"
        and s = "newSession 0\<lparr>testStartTime := 1\<rparr>"]
    disconnect_leaves_timer
      [where c = "onClose ((fetch 0)\<lparr>pending := [(200000, - 5, 0)]\<rparr>)"
        and thr = False and now = 9 and ss = 200000 and b = 0 and cs = "- 5" and rest = "[]"
        and s = "newSession 0\<lparr>testStartTime := 1\<rparr>"]
    disconnect_leaves_timer
      [where c = "fetch 0" and thr = True and now = 2 and ss = 200000 and b = 200000
        and cs = 65536 and s = "newSession 0\<lparr>testStartTime := 1\<rparr>"]
    disconnect_leaves_timer
      [where c = "fetch 0" and thr = False and now = 9 and ss = 200000 and b = 200000
        and cs = 65536 and s = "newSession 0\<lparr>testStartTime := 1\<rparr>"]
  by (simp add: onClose_def handleMessage_def handleDownloadTestDO_def sendChunkDO_def fetch_def
      newSession_def chunkSizeOf_def safeSizeOf_def or_default_def maxSize_def uint8ArrayOk_def
      toInteger_def)

section \<open>Yielding after every write\<close>

lemma progressAt_short: "length (progressAt ss x) \<le> 1"
  by (simp add: progressAt_def)

text \<open>
  C7. In every transport binding, a scheduling unit of the emission loop issues exactly
  one chunk write, registers exactly one resumption and returns; it does so when the
  write reports backpressure as when it does not. On the download route the unit is the
  same whether \<^verbatim>\<open>res.write\<close> returned \<open>false\<close> (the stream is over its high-water
  mark) or \<open>true\<close>: one write, one \<^verbatim>\<open>setImmediate\<close>, and the next unit is the only
  thing that follows. On the sockets a send reports nothing, and the unit is the same on
  a connection under backpressure as on any other. On the Node socket server the unit
  issues one binary write, whose completion callback is the one resumption it leaves;
  when the write has succeeded the callback counts the chunk, sends the progress frame if
  one is due, writes no chunk, and, while bytes remain, queues exactly one
  \<^verbatim>\<open>nextTick\<close>. On the Durable Object the unit sends one chunk and sets one timer. On
  the upgrade endpoint the unit sends one chunk, then the progress frame of that chunk
  when one is due, and sets one timer. No unit contains a loop or a second chunk write,
  and on the reactor a unit that has run leaves at most one successor.
\<close>

theorem one_write_then_yield:
  "(0 < K \<and> 0 \<le> B \<and> B < T \<and> T \<le> maxSize \<longrightarrow>
      sendChunk False T K B = (B + min K (T - B), [Write (min K (T - B))], True) \<and>
      sendChunks flushed k T K B acc =
        sendChunks flushed (Suc k) T K (B + min K (T - B)) (acc @ [Write (min K (T - B))])) \<and>
   sendChunk fl T K B = sendChunk False T K B \<and>
   (b < ss \<longrightarrow>
      sendNextChunk now ss cs b s =
        ([Binary (subarrayLen (toInteger cs) (min cs (ss - b)))], Some (min cs (ss - b)))) \<and>
   (wsCongested w \<and> tasks w = NextTick ss cs b # restW \<and> b < ss \<longrightarrow>
      wsStep err now w =
        w\<lparr>tasks := restW @ [Callback ss cs b (min cs (ss - b))],
          wsSent := wsSent w @ [Binary (subarrayLen (toInteger cs) (min cs (ss - b)))]\<rparr>) \<and>
   (b + cur < ss \<longrightarrow>
      onWritten False cur ss b s =
        (b + cur, s\<lparr>bytesTransferred := b + cur\<rparr>, progressAt ss (b + cur), True)) \<and>
   binaries (fst (snd (snd (onWritten err cur ss b s)))) = [] \<and>
   (wsCongested w \<and> tasks w = Callback ss cs b cur # restW \<and> b + cur < ss \<longrightarrow>
      wsStep False now w =
        w\<lparr>clientInfo := (clientInfo w)\<lparr>bytesTransferred := b + cur\<rparr>,
          tasks := restW @ [NextTick ss cs (b + cur)],
          wsSent := wsSent w @ progressAt ss (b + cur)\<rparr>) \<and>
   wsStep err now (w\<lparr>wsCongested := g\<rparr>) = (wsStep err now w)\<lparr>wsCongested := g\<rparr> \<and>
   (b < ss \<and> uint8ArrayOk (min cs (ss - b)) \<longrightarrow>
      sendChunkDO False now ss cs b s =
        (False, b + min cs (ss - b), s\<lparr>bytesTransferred := b + min cs (ss - b)\<rparr>,
         [DownloadProgressData (b + min cs (ss - b)) ss (toInteger (min cs (ss - b)))], True)) \<and>
   (doCongested d \<and> socketOpen d \<and> pending d = (ss, cs, b) # restD \<and> b < ss \<and>
    uint8ArrayOk (min cs (ss - b)) \<longrightarrow>
      onTimerDO thr now d =
        d\<lparr>sessionInfo := (sessionInfo d)\<lparr>bytesTransferred := b + min cs (ss - b)\<rparr>,
          pending := restD @ [(ss, cs, b + min cs (ss - b))],
          calls := calls d @
            [Delivered (DownloadProgressData (b + min cs (ss - b)) ss
               (toInteger (min cs (ss - b))))]\<rparr>) \<and>
   onTimerDO thr now (d\<lparr>doCongested := g\<rparr>) = (onTimerDO thr now d)\<lparr>doCongested := g\<rparr> \<and>
   (bytesTransferred s < ss \<longrightarrow>
      sendNext now ss cs s =
        (s\<lparr>bytesTransferred := bytesTransferred s + min cs (ss - bytesTransferred s)\<rparr>,
         Binary (subarrayLen (toInteger cs) (min cs (ss - bytesTransferred s))) #
           progressAt ss (bytesTransferred s + min cs (ss - bytesTransferred s)),
         True)) \<and>
   binaries (progressAt ss x) = [] \<and> length (progressAt ss x) \<le> 1 \<and>
   (congested c \<and> timers c = (ss, cs) # restC \<and> bytesTransferred (sess c) < ss \<longrightarrow>
      onTimer now c =
        c\<lparr>sess := (sess c)\<lparr>bytesTransferred :=
                   bytesTransferred (sess c) + min cs (ss - bytesTransferred (sess c))\<rparr>,
          timers := restC @ [(ss, cs)],
          sent := sent c @
            Binary (subarrayLen (toInteger cs) (min cs (ss - bytesTransferred (sess c)))) #
            progressAt ss
              (bytesTransferred (sess c) + min cs (ss - bytesTransferred (sess c)))\<rparr>) \<and>
   onTimer now (c\<lparr>congested := g\<rparr>) = (onTimer now c)\<lparr>congested := g\<rparr> \<and>
   length (timers (onTimer now c)) \<le> length (timers c) \<and>
   length (pending (onTimerDO thr now d)) \<le> length (pending d) \<and>
   length (tasks (wsStep err now w)) \<le> length (tasks w)"
proof -
  have h: "0 < K \<and> 0 \<le> B \<and> B < T \<and> T \<le> maxSize \<longrightarrow>
      sendChunk False T K B = (B + min K (T - B), [Write (min K (T - B))], True) \<and>
      sendChunks flushed k T K B acc =
        sendChunks flushed (Suc k) T K (B + min K (T - B)) (acc @ [Write (min K (T - B))])"
  proof
    assume a: "0 < K \<and> 0 \<le> B \<and> B < T \<and> T \<le> maxSize"
    then have u: "sendChunk fl T K B = (B + min K (T - B), [Write (min K (T - B))], True)" for fl
      by (simp add: sendChunk_write)
    have "sendChunks flushed k T K B acc =
        sendChunks flushed (Suc k) T K (B + min K (T - B)) (acc @ [Write (min K (T - B))])"
      by (subst sendChunks.simps) (simp add: u)
    with u show "sendChunk False T K B = (B + min K (T - B), [Write (min K (T - B))], True) \<and>
      sendChunks flushed k T K B acc =
        sendChunks flushed (Suc k) T K (B + min K (T - B)) (acc @ [Write (min K (T - B))])"
      by simp
  qed
  have h2: "sendChunk fl T K B = sendChunk False T K B"
    by (simp add: sendChunk_def)
  have n1: "b < ss \<longrightarrow>
      sendNextChunk now ss cs b s =
        ([Binary (subarrayLen (toInteger cs) (min cs (ss - b)))], Some (min cs (ss - b)))"
    by (simp add: sendNextChunk_def Let_def)
  have n2: "wsCongested w \<and> tasks w = NextTick ss cs b # restW \<and> b < ss \<longrightarrow>
      wsStep err now w =
        w\<lparr>tasks := restW @ [Callback ss cs b (min cs (ss - b))],
          wsSent := wsSent w @ [Binary (subarrayLen (toInteger cs) (min cs (ss - b)))]\<rparr>"
    by (simp add: wsStep_def sendNextChunk_def Let_def)
  have n3: "b + cur < ss \<longrightarrow>
      onWritten False cur ss b s =
        (b + cur, s\<lparr>bytesTransferred := b + cur\<rparr>, progressAt ss (b + cur), True)"
    by (simp add: onWritten_def Let_def)
  have n4: "binaries (fst (snd (snd (onWritten err cur ss b s)))) = []"
    by (simp add: onWritten_def Let_def)
  have n5: "wsCongested w \<and> tasks w = Callback ss cs b cur # restW \<and> b + cur < ss \<longrightarrow>
      wsStep False now w =
        w\<lparr>clientInfo := (clientInfo w)\<lparr>bytesTransferred := b + cur\<rparr>,
          tasks := restW @ [NextTick ss cs (b + cur)],
          wsSent := wsSent w @ progressAt ss (b + cur)\<rparr>"
    by (simp add: wsStep_def onWritten_def Let_def)
  have n6: "wsStep err now (w\<lparr>wsCongested := g\<rparr>) = (wsStep err now w)\<lparr>wsCongested := g\<rparr>"
    by (simp add: wsStep_def split: list.splits task.splits prod.splits)
  have d1: "b < ss \<and> uint8ArrayOk (min cs (ss - b)) \<longrightarrow>
      sendChunkDO False now ss cs b s =
        (False, b + min cs (ss - b), s\<lparr>bytesTransferred := b + min cs (ss - b)\<rparr>,
         [DownloadProgressData (b + min cs (ss - b)) ss (toInteger (min cs (ss - b)))], True)"
    by (simp add: sendChunkDO_def Let_def)
  have d2: "doCongested d \<and> socketOpen d \<and> pending d = (ss, cs, b) # restD \<and> b < ss \<and>
    uint8ArrayOk (min cs (ss - b)) \<longrightarrow>
      onTimerDO thr now d =
        d\<lparr>sessionInfo := (sessionInfo d)\<lparr>bytesTransferred := b + min cs (ss - b)\<rparr>,
          pending := restD @ [(ss, cs, b + min cs (ss - b))],
          calls := calls d @
            [Delivered (DownloadProgressData (b + min cs (ss - b)) ss
               (toInteger (min cs (ss - b))))]\<rparr>"
    by (simp add: onTimerDO_def sendChunkDO_def wsSend_def Let_def)
  have d3: "onTimerDO thr now (d\<lparr>doCongested := g\<rparr>) = (onTimerDO thr now d)\<lparr>doCongested := g\<rparr>"
    by (simp add: onTimerDO_def split: list.splits prod.splits)
  have u1: "bytesTransferred s < ss \<longrightarrow>
      sendNext now ss cs s =
        (s\<lparr>bytesTransferred := bytesTransferred s + min cs (ss - bytesTransferred s)\<rparr>,
         Binary (subarrayLen (toInteger cs) (min cs (ss - bytesTransferred s))) #
           progressAt ss (bytesTransferred s + min cs (ss - bytesTransferred s)),
         True)"
    by (simp add: sendNext_def Let_def)
  have u2: "binaries (progressAt ss x) = []" by simp
  have u3: "length (progressAt ss x) \<le> 1" by (rule progressAt_short)
  have u4: "congested c \<and> timers c = (ss, cs) # restC \<and> bytesTransferred (sess c) < ss \<longrightarrow>
      onTimer now c =
        c\<lparr>sess := (sess c)\<lparr>bytesTransferred :=
                   bytesTransferred (sess c) + min cs (ss - bytesTransferred (sess c))\<rparr>,
          timers := restC @ [(ss, cs)],
          sent := sent c @
            Binary (subarrayLen (toInteger cs) (min cs (ss - bytesTransferred (sess c)))) #
            progressAt ss
              (bytesTransferred (sess c) + min cs (ss - bytesTransferred (sess c)))\<rparr>"
    by (simp add: onTimer_def sendNext_def Let_def)
  have u5: "onTimer now (c\<lparr>congested := g\<rparr>) = (onTimer now c)\<lparr>congested := g\<rparr>"
    by (simp add: onTimer_def split: list.splits prod.splits)
  have t1: "length (timers (onTimer now c)) \<le> length (timers c)"
    by (simp add: onTimer_def split: list.splits prod.splits)
  have t2: "length (pending (onTimerDO thr now d)) \<le> length (pending d)"
    by (simp add: onTimerDO_def split: list.splits prod.splits)
  have t3: "length (tasks (wsStep err now w)) \<le> length (tasks w)"
    by (simp add: wsStep_def split: list.splits task.splits prod.splits option.splits)
  show ?thesis
    apply (intro conjI)
    apply (rule h)
    apply (rule h2)
    apply (rule n1)
    apply (rule n2)
    apply (rule n3)
    apply (rule n4)
    apply (rule n5)
    apply (rule n6)
    apply (rule d1)
    apply (rule d2)
    apply (rule d3)
    apply (rule u1)
    apply (rule u2)
    apply (rule u3)
    apply (rule u4)
    apply (rule u5)
    apply (rule t1)
    apply (rule t2)
    apply (rule t3)
    done
qed

theorem one_write_then_yield_witness:
  "(0::int) < 65536 \<and> (0::int) \<le> 131072 \<and> (131072::int) < 200000 \<and> (200000::int) \<le> maxSize \<and>
   sendChunk False 200000 65536 131072 = (196608, [Write 65536], True) \<and>
   sendChunk True 200000 65536 131072 = (196608, [Write 65536], True) \<and>
   (983040::real) < 2097152 \<and> (983040 + 65536::real) < 2097152 \<and>
   uint8ArrayOk (min 65536 (2097152 - 983040)) \<and>
   wsCongested (wsOpen\<lparr>tasks := [NextTick 2097152 65536 983040], wsCongested := True\<rparr>) \<and>
   wsStep False 5 (wsOpen\<lparr>tasks := [NextTick 2097152 65536 983040], wsCongested := True\<rparr>) =
     wsOpen\<lparr>tasks := [Callback 2097152 65536 983040 65536], wsSent := [Binary 65536],
            wsCongested := True\<rparr> \<and>
   wsStep False 5
     (wsOpen\<lparr>tasks := [Callback 2097152 65536 983040 65536], wsCongested := True\<rparr>) =
     wsOpen\<lparr>clientInfo := (newSession 0)\<lparr>bytesTransferred := 1048576\<rparr>,
            tasks := [NextTick 2097152 65536 1048576],
            wsSent := [DownloadProgress 1048576 2097152 (Decimal ''50.0'')],
            wsCongested := True\<rparr> \<and>
   onTimerDO False 5 ((fetch 0)\<lparr>pending := [(2097152, 65536, 983040)], doCongested := True\<rparr>) =
     (fetch 0)\<lparr>sessionInfo := (newSession 0)\<lparr>bytesTransferred := 1048576\<rparr>,
               pending := [(2097152, 65536, 1048576)],
               calls := [Delivered (DownloadProgressData 1048576 2097152 65536)],
               doCongested := True\<rparr> \<and>
   onTimer 5 ((openConn 0)\<lparr>sess := (newSession 0)\<lparr>bytesTransferred := 983040\<rparr>,
                           timers := [(2097152, 65536)], congested := True\<rparr>) =
     (openConn 0)\<lparr>sess := (newSession 0)\<lparr>bytesTransferred := 1048576\<rparr>,
                  timers := [(2097152, 65536)],
                  sent := [Binary 65536, DownloadProgress 1048576 2097152 (Decimal ''50.0'')],
                  congested := True\<rparr>"
proof -
  have e: "progressAt 2097152 1048576 = [DownloadProgress 1048576 2097152 (Decimal ''50.0'')]"
    "subarrayLen (toInteger 65536) 65536 = 65536" "toInteger 65536 = 65536"
    "uint8ArrayOk 65536"
    by (simp_all add: progressAt_def wholeMiB_def MiB_def percentOf_def js_div_def toFixed1_def
        natText.simps digitChar_def Let_def subarrayLen_def toInteger_def uint8ArrayOk_def)
  show ?thesis
    using one_write_then_yield [where K = 65536 and B = 131072 and T = 200000
        and flushed = neverFlushed and k = 0 and acc = "[]" and fl = True
        and ss = 2097152 and cs = 65536 and b = 983040 and now = 5 and cur = 65536
        and s = "(newSession 0)\<lparr>bytesTransferred := 983040\<rparr>"
        and w = "wsOpen\<lparr>tasks := [NextTick 2097152 65536 983040], wsCongested := True\<rparr>"
        and restW = "[]" and err = False and g = False
        and d = "(fetch 0)\<lparr>pending := [(2097152, 65536, 983040)], doCongested := True\<rparr>"
        and restD = "[]" and thr = False
        and c = "(openConn 0)\<lparr>sess := (newSession 0)\<lparr>bytesTransferred := 983040\<rparr>,
                           timers := [(2097152, 65536)], congested := True\<rparr>"
        and restC = "[]" and x = 1048576]
      one_write_then_yield [where K = 65536 and B = 131072 and T = 200000
        and flushed = neverFlushed and k = 0 and acc = "[]" and fl = True
        and ss = 2097152 and cs = 65536 and b = 983040 and now = 5 and cur = 65536
        and s = "(newSession 0)\<lparr>bytesTransferred := 983040\<rparr>"
        and w = "wsOpen\<lparr>tasks := [Callback 2097152 65536 983040 65536], wsCongested := True\<rparr>"
        and restW = "[]" and err = False and g = False
        and d = "(fetch 0)\<lparr>pending := [(2097152, 65536, 983040)], doCongested := True\<rparr>"
        and restD = "[]" and thr = False
        and c = "(openConn 0)\<lparr>sess := (newSession 0)\<lparr>bytesTransferred := 983040\<rparr>,
                           timers := [(2097152, 65536)], congested := True\<rparr>"
        and restC = "[]" and x = 1048576]
    by (simp add: maxSize_def newSession_def wsOpen_def fetch_def openConn_def e subarrayLen_def
        toInteger_def)
qed

section \<open>The end of a run on the Node socket server\<close>

lemma no_completion_in_chunkTrace: "filter isComplete (chunkTrace cs ss b) = []"
proof (induction cs ss b rule: chunkTrace.induct)
  case (1 cs ss b)
  show ?case
  proof (cases "0 < cs \<and> b < ss")
    case True
    with 1 show ?thesis
      by (simp add: chunkTrace_step isComplete_def progressAt_def)
  next
    case False
    then have "chunkTrace cs ss b = []" by (auto simp: chunkTrace.simps[of cs ss b])
    then show ?thesis by simp
  qed
qed

text \<open>
  On the Node socket server, a download with a positive whole-number total and chunk
  size, on a connection with nothing else outstanding and whose writes all succeed, ends
  with the progress frame of its last chunk. The completion callback calls
  \<^verbatim>\<open>process.nextTick(sendNextChunk)\<close> only while \<open>bytesSent < safeSize\<close>, so the unit
  that would send \<^verbatim>\<open>download_complete\<close> is never scheduled: the run sends no completion
  frame.
\<close>

theorem node_socket_run_sends_no_completion:
  "safeSizeOf S = of_int ss \<Longrightarrow> chunkSizeOf C = of_int cs \<Longrightarrow> 0 < ss \<Longrightarrow> 0 < cs \<Longrightarrow>
   cs \<le> 2 ^ 31 - 1 \<Longrightarrow> tasks w = [] \<Longrightarrow>
   wsDrain noError clock k (handleDownloadTest now S C w) =
     Some (w\<lparr>clientInfo := (clientInfo w)\<lparr>testPhase := Some Download,
                  bytesTransferred := of_int ss, testStartTime := now\<rparr>,
             tasks := [],
             wsSent := wsSent w @ DownloadStarted (of_int ss) # chunkTrace cs ss 0\<rparr>) \<and>
   filter isComplete (DownloadStarted (of_int ss) # chunkTrace cs ss 0) = []"
  using ws_download_run[of C cs S ss w clock k now] no_completion_in_chunkTrace
  by (simp add: isComplete_def)

theorem node_socket_run_sends_no_completion_witness:
  "safeSizeOf (Some 2097152) = real_of_int 2097152 \<and>
   chunkSizeOf (Some 1048576) = real_of_int 1048576 \<and>
   (0::int) < 2097152 \<and> (0::int) < 1048576 \<and> (1048576::int) \<le> 2 ^ 31 - 1 \<and> tasks wsOpen = [] \<and>
   wsDrain noError (steadyClock 1000) 1
     (handleDownloadTest 1000 (Some 2097152) (Some 1048576) wsOpen) =
     Some \<lparr>clientInfo = \<lparr>testPhase = Some Download, bytesTransferred = 2097152,
                          testStartTime = 1000, lastActivity = 0\<rparr>,
           tasks = [],
           wsSent = [DownloadStarted 2097152,
                     Binary 1048576, DownloadProgress 1048576 2097152 (Decimal ''50.0''),
                     Binary 1048576, DownloadProgress 2097152 2097152 (Decimal ''100.0'')],
           wsCongested = False\<rparr>"
proof -
  have a: "safeSizeOf (Some 2097152) = real_of_int 2097152"
    "chunkSizeOf (Some 1048576) = real_of_int 1048576"
    "(0::int) < 2097152" "(0::int) < 1048576" "(1048576::int) \<le> 2 ^ 31 - 1" "tasks wsOpen = []"
    by (simp_all add: safeSizeOf_def chunkSizeOf_def or_default_def maxSize_def wsOpen_def)
  show ?thesis
    using node_socket_run_sends_no_completion [OF a, of "steadyClock 1000" 1 1000] a
    by (simp add: chunkTrace_two_MiB wsOpen_def newSession_def)
qed

section \<open>Upload frames without a numeric length\<close>

text \<open>
  C10. In the upgrade endpoint (the persistent duplex adapter), an \<^verbatim>\<open>upload_data\<close>
  frame whose \<^verbatim>\<open>byteLength\<close> is absent or is not a number gets no response frame at
  all, neither an acknowledgement nor an error, and the session's \<open>bytesTransferred\<close>
  stays as it was. (Only \<open>lastActivity\<close> is written.)
\<close>

theorem upload_data_without_length_is_silent:
  "\<not> isNumber v \<Longrightarrow>
     sent (onMessage now (UploadData v d) c) = sent c \<and>
     bytesTransferred (sess (onMessage now (UploadData v d) c)) = bytesTransferred (sess c) \<and>
     onMessage now (UploadData v d) c = c\<lparr>sess := (sess c)\<lparr>lastActivity := now\<rparr>\<rparr>"
  by (cases v) (simp_all add: onMessage_def isNumber_def)

theorem upload_data_without_length_is_silent_witness:
  "\<not> isNumber JUndefined \<and> \<not> isNumber (JString ''4096'') \<and>
   sent (onMessage 1700000000500 (UploadData JUndefined None) (openConn 1700000000000)) = [] \<and>
   bytesTransferred (sess (onMessage 1700000000500 (UploadData (JString ''4096'') (Some 4096))
     (openConn 1700000000000))) = 0"
  using upload_data_without_length_is_silent [of JUndefined 1700000000500 None "openConn 1700000000000"]
    upload_data_without_length_is_silent
      [of "JString ''4096''" 1700000000500 "Some 4096" "openConn 1700000000000"]
  by (simp add: isNumber_def openConn_def newSession_def)

end
